theory Spec2Isabelle
  imports Complex_Main
begin

section \<open>Band-constrained Lp-norm minimisation (vamtoolbox/backup/BCLP\_20221026.py)\<close>

text \<open>
  The development embeds the classes \<^verbatim>\<open>LogPerf\<close> and \<^verbatim>\<open>BCLPNorm\<close> and the
  function \<^verbatim>\<open>minimizeBCLP\<close>. Objects are records, attribute mutation is state
  passing, every Python exception is a value of the type \<open>error\<close>, and the
  \<^verbatim>\<open>for\<close> loop of \<^verbatim>\<open>gradientDescent\<close> is a recursion on the number of
  iterations left.
\<close>

subsection \<open>Array elements\<close>

text \<open>
  An element of a numpy array of doubles is an exact real number, one of the two
  infinities, or not-a-number. Rounding, overflow and the sign of zero are not part of
  the model; what is kept is how numpy propagates \<open>nan\<close> and \<open>inf\<close>, on which the
  log's unset marker and the power of a negative base depend.
\<close>

datatype fl = NaN | NInf | Fin real | PInf

fun fneg :: "fl \<Rightarrow> fl" where
  "fneg NaN = NaN"
| "fneg NInf = PInf"
| "fneg (Fin x) = Fin (- x)"
| "fneg PInf = NInf"

fun fadd :: "fl \<Rightarrow> fl \<Rightarrow> fl" where
  "fadd (Fin x) (Fin y) = Fin (x + y)"
| "fadd NaN b = NaN"
| "fadd a NaN = NaN"
| "fadd PInf NInf = NaN"
| "fadd NInf PInf = NaN"
| "fadd PInf b = PInf"
| "fadd a PInf = PInf"
| "fadd NInf b = NInf"
| "fadd a NInf = NInf"

definition fsub :: "fl \<Rightarrow> fl \<Rightarrow> fl" where
  "fsub a b = fadd a (fneg b)"

text \<open>The sign of an infinite product; zero times infinity is \<open>nan\<close>.\<close>

definition inf_times :: "bool \<Rightarrow> real \<Rightarrow> fl" where
  "inf_times positive x =
     (if x = 0 then NaN else if (0 < x) = positive then PInf else NInf)"

fun fmul :: "fl \<Rightarrow> fl \<Rightarrow> fl" where
  "fmul (Fin x) (Fin y) = Fin (x * y)"
| "fmul NaN b = NaN"
| "fmul a NaN = NaN"
| "fmul (Fin x) PInf = inf_times True x"
| "fmul (Fin x) NInf = inf_times False x"
| "fmul PInf (Fin y) = inf_times True y"
| "fmul NInf (Fin y) = inf_times False y"
| "fmul PInf PInf = PInf"
| "fmul NInf NInf = PInf"
| "fmul PInf NInf = NInf"
| "fmul NInf PInf = NInf"

fun fabs :: "fl \<Rightarrow> fl" where
  "fabs NaN = NaN"
| "fabs NInf = PInf"
| "fabs (Fin x) = Fin \<bar>x\<bar>"
| "fabs PInf = PInf"

text \<open>\<^verbatim>\<open>np.sign\<close>.\<close>

fun fsign :: "fl \<Rightarrow> fl" where
  "fsign NaN = NaN"
| "fsign NInf = Fin (- 1)"
| "fsign (Fin x) = Fin (sgn x)"
| "fsign PInf = Fin 1"

text \<open>The comparisons \<^verbatim>\<open>x > 0\<close> and \<^verbatim>\<open>x >= 0\<close>; both are false on \<open>nan\<close>.\<close>

fun fgt0 :: "fl \<Rightarrow> bool" where
  "fgt0 NaN = False"
| "fgt0 NInf = False"
| "fgt0 (Fin x) = (0 < x)"
| "fgt0 PInf = True"


text \<open>A boolean array element used as a factor: \<^verbatim>\<open>True\<close> is 1.0, \<^verbatim>\<open>False\<close> is 0.0.\<close>

definition of_flag :: "bool \<Rightarrow> fl" where
  "of_flag b = (if b then Fin 1 else Fin 0)"

text \<open>
  \<^verbatim>\<open>x ** y\<close> for a double \<open>x\<close> and a finite exponent \<open>y\<close>, as numpy computes it (C's
  \<^verbatim>\<open>pow\<close>): anything to the power 0 is 1, a negative base with an exponent that is not
  a whole number is \<open>nan\<close>, zero to a negative power is \<open>inf\<close>.
\<close>

definition is_whole :: "real \<Rightarrow> bool" where
  "is_whole y = (of_int \<lfloor>y\<rfloor> = y)"

fun fpow :: "fl \<Rightarrow> real \<Rightarrow> fl" where
  "fpow NaN y = (if y = 0 then Fin 1 else NaN)"
| "fpow (Fin x) y =
     (if y = 0 then Fin 1
      else if 0 < x then Fin (x powr y)
      else if x = 0 then (if 0 < y then Fin 0 else PInf)
      else if is_whole y then Fin (x powi \<lfloor>y\<rfloor>)
      else NaN)"
| "fpow PInf y = (if y = 0 then Fin 1 else if 0 < y then PInf else Fin 0)"
| "fpow NInf y =
     (if y = 0 then Fin 1
      else if y < 0 then Fin 0
      else if is_whole y \<and> odd \<lfloor>y\<rfloor> then NInf
      else PInf)"

text \<open>\<^verbatim>\<open>np.clip(x, a_min, a_max)\<close> on one element: \<^verbatim>\<open>minimum(a_max, maximum(x, a_min))\<close>.\<close>

fun fclip :: "real \<Rightarrow> real \<Rightarrow> fl \<Rightarrow> fl" where
  "fclip lo hi NaN = NaN"
| "fclip lo hi NInf = Fin (min hi lo)"
| "fclip lo hi (Fin x) = Fin (min hi (max x lo))"
| "fclip lo hi PInf = Fin hi"

text \<open>The larger of two elements as \<^verbatim>\<open>np.amax\<close> folds them: \<open>nan\<close> wins.\<close>

fun fmax :: "fl \<Rightarrow> fl \<Rightarrow> fl" where
  "fmax (Fin x) (Fin y) = Fin (max x y)"
| "fmax NaN b = NaN"
| "fmax a NaN = NaN"
| "fmax PInf b = PInf"
| "fmax a PInf = PInf"
| "fmax NInf b = b"
| "fmax a NInf = a"

subsection \<open>Exceptions\<close>

datatype error = AttributeError | ValueError | TypeError | IndexError | ZeroDivisionError

text \<open>Sequencing of statements that may raise: the first exception ends the call.\<close>

fun bindE :: "error + 'a \<Rightarrow> ('a \<Rightarrow> error + 'b) \<Rightarrow> error + 'b" where
  "bindE (Inl e) f = Inl e"
| "bindE (Inr x) f = f x"

text \<open>An attribute that holds \<^verbatim>\<open>None\<close> cannot be used as an array operand.\<close>

fun not_None :: "'a option \<Rightarrow> error + 'a" where
  "not_None None = Inl TypeError"
| "not_None (Some x) = Inr x"

text \<open>Indexing a one-dimensional array with a Python integer: a negative index counts
  from the end, an index outside the array raises \<^verbatim>\<open>IndexError\<close>.\<close>

definition py_index :: "'a list \<Rightarrow> int \<Rightarrow> error + nat" where
  "py_index xs i =
     (if 0 \<le> i \<and> i < int (length xs) then Inr (nat i)
      else if i < 0 \<and> - int (length xs) \<le> i then Inr (nat (int (length xs) + i))
      else Inl IndexError)"

definition py_get :: "'a list \<Rightarrow> int \<Rightarrow> error + 'a" where
  "py_get xs i = bindE (py_index xs i) (\<lambda>j. Inr (xs ! j))"

definition py_set :: "'a list \<Rightarrow> int \<Rightarrow> 'a \<Rightarrow> error + 'a list" where
  "py_set xs i x = bindE (py_index xs i) (\<lambda>j. Inr (xs[j := x]))"

subsection \<open>Arrays\<close>

text \<open>
  A volume array (dose, target, weight) is the list of its elements. A sinogram also
  carries its numpy shape, because the optimizer switches between the projector's native
  shape and a one-dimensional one. Two arrays are combined elementwise when they have as
  many elements; any other pairing is reported as numpy's \<^verbatim>\<open>ValueError\<close> (the
  optimizer's own arrays all have the target's shape, and numpy's broadcasting between
  arrays of different shapes is not modelled).
\<close>

record ndarray =
  shape :: "nat list"
  data :: "fl list"

definition ew2 :: "(fl \<Rightarrow> fl \<Rightarrow> fl) \<Rightarrow> fl list \<Rightarrow> fl list \<Rightarrow> error + fl list" where
  "ew2 f xs ys = (if length xs = length ys then Inr (map2 f xs ys) else Inl ValueError)"

text \<open>The loss weight is a scalar or an array of the target's shape.\<close>

datatype weight_t = Scalar fl | Array "fl list"

definition times_weight :: "fl list \<Rightarrow> weight_t \<Rightarrow> error + fl list" where
  "times_weight xs w =
     (case w of Scalar c \<Rightarrow> Inr (map (\<lambda>x. fmul x c) xs) | Array ws \<Rightarrow> ew2 fmul xs ws)"

text \<open>\<^verbatim>\<open>np.sum\<close>, \<^verbatim>\<open>np.amax\<close> (which raises on an empty array), \<^verbatim>\<open>np.reshape\<close>,
  \<^verbatim>\<open>np.clip\<close>, and the arithmetic of a sinogram with a scalar or another sinogram.\<close>

definition fsum :: "fl list \<Rightarrow> fl" where
  "fsum xs = foldl fadd (Fin 0) xs"

definition amax :: "fl list \<Rightarrow> error + fl" where
  "amax xs = (case xs of [] \<Rightarrow> Inl ValueError | x # rest \<Rightarrow> Inr (foldl fmax x rest))"

definition reshape :: "ndarray \<Rightarrow> nat list \<Rightarrow> error + ndarray" where
  "reshape g sh =
     (if prod_list sh = length (data g) then Inr (g\<lparr>shape := sh\<rparr>) else Inl ValueError)"

definition np_clip :: "ndarray \<Rightarrow> real \<Rightarrow> real \<Rightarrow> ndarray" where
  "np_clip g a_min a_max = g\<lparr>data := map (fclip a_min a_max) (data g)\<rparr>"

definition scalar_times :: "fl \<Rightarrow> ndarray \<Rightarrow> ndarray" where
  "scalar_times c g = g\<lparr>data := map (fmul c) (data g)\<rparr>"

definition nd_minus :: "ndarray \<Rightarrow> ndarray \<Rightarrow> error + ndarray" where
  "nd_minus a b =
     (if shape a = shape b then bindE (ew2 fsub (data a) (data b)) (\<lambda>d. Inr (a\<lparr>data := d\<rparr>))
      else Inl ValueError)"

text \<open>Division of two Python numbers.\<close>

definition py_div :: "real \<Rightarrow> real \<Rightarrow> error + real" where
  "py_div a b = (if b = 0 then Inl ZeroDivisionError else Inr (a / b))"

subsection \<open>Options and external collaborators\<close>

text \<open>
  The response model, the projector, the sinogram filter, the quantiser
  \<^verbatim>\<open>vamtoolbox.util.data.discretize\<close>, the live plot and the clock are not part of the
  file; they are parameters. \<open>perf_counter W k\<close> is the value of the \<open>k\<close>-th call of
  \<^verbatim>\<open>time.perf_counter()\<close>. The options are read-only, so the copies that
  \<^verbatim>\<open>BCLPNorm.__init__\<close> makes of them (\<^verbatim>\<open>self.p\<close>, \<^verbatim>\<open>self.glb\<close>, ...) are read from
  the options record. \<open>n_iter\<close> is a count; \<open>verbose\<close> and the filter are the strings
  of the source.
\<close>

record response_model_t =
  rm_map :: "fl list \<Rightarrow> fl list"
  map_inv :: "fl list \<Rightarrow> fl list"
  dmapdf :: "fl list \<Rightarrow> fl list"
  checkResponseTarget :: "fl list \<Rightarrow> bool"

record options =
  n_iter :: nat
  response_model :: response_model_t
  eps :: real
  weight :: weight_t
  p :: real
  q :: real
  learning_rate :: real
  blb :: real
  bub :: real
  bit_depth :: "nat option"
  filter_opt :: string
  verbose :: string

record world =
  target_array :: "fl list"
  n_angles :: nat
  P_forward :: "fl list \<Rightarrow> ndarray"
  P_backward :: "ndarray \<Rightarrow> fl list"
  filterSinogram :: "ndarray \<Rightarrow> string \<Rightarrow> ndarray"
  discretize :: "ndarray \<Rightarrow> nat \<Rightarrow> fl \<times> fl \<Rightarrow> ndarray"
  perf_counter :: "nat \<Rightarrow> real"

subsection \<open>LogPerf\<close>

record LogPerf =
  curr_iter :: int
  loss :: "fl list"
  l0_v :: "fl list"
  l1_v :: "fl list"
  l2_v :: "fl list"
  lf_v :: "fl list"
  l0_all :: "fl list"
  l1_all :: "fl list"
  l2_all :: "fl list"
  lf_all :: "fl list"
  ver :: "fl list"
  iter_times :: "fl list"
  t0 :: fl

text \<open>\<^verbatim>\<open>np.zeros(n)\<close> and \<^verbatim>\<open>np.zeros(n)*np.nan\<close>.\<close>

definition np_zeros :: "nat \<Rightarrow> fl list" where
  "np_zeros n = replicate n (Fin 0)"

definition zeros_times_nan :: "nat \<Rightarrow> fl list" where
  "zeros_times_nan n = map (\<lambda>z. fmul z NaN) (np_zeros n)"

definition LogPerf_init :: "options \<Rightarrow> LogPerf" where
  "LogPerf_init opts =
     \<lparr>curr_iter = 0,
      loss = zeros_times_nan (n_iter opts + 1),
      l0_v = zeros_times_nan (n_iter opts + 1),
      l1_v = zeros_times_nan (n_iter opts + 1),
      l2_v = zeros_times_nan (n_iter opts + 1),
      lf_v = zeros_times_nan (n_iter opts + 1),
      l0_all = zeros_times_nan (n_iter opts + 1),
      l1_all = zeros_times_nan (n_iter opts + 1),
      l2_all = zeros_times_nan (n_iter opts + 1),
      lf_all = zeros_times_nan (n_iter opts + 1),
      ver = zeros_times_nan (n_iter opts + 1),
      iter_times = np_zeros (n_iter opts + 1),
      t0 = NaN\<rparr>"

text \<open>Both timing methods take the clock's reading \<open>now\<close> as an argument.\<close>

definition startTiming :: "LogPerf \<Rightarrow> real \<Rightarrow> LogPerf" where
  "startTiming lg now = lg\<lparr>t0 := Fin now\<rparr>"

definition recordIterTime :: "LogPerf \<Rightarrow> real \<Rightarrow> error + LogPerf" where
  "recordIterTime lg now =
     bindE (py_set (iter_times lg) (curr_iter lg) (fsub (Fin now) (t0 lg)))
       (\<lambda>ts. Inr (lg\<lparr>iter_times := ts\<rparr>))"

subsection \<open>BCLPNorm: the state\<close>

text \<open>
  The attributes of a \<^verbatim>\<open>BCLPNorm\<close> object that change or are read after construction.
  A cached array is \<open>None\<close> until it is first computed. \<open>dp\<close> is the attribute holding
  the live plot: \<open>None\<close> when the attribute was never assigned, \<open>Some k\<close> for a plot
  that has received \<open>k\<close> updates. \<open>clock_reads\<close> counts the calls of
  \<^verbatim>\<open>time.perf_counter()\<close> so far, \<open>stdout\<close> holds the iteration index and time of every
  printed progress line, \<open>warned\<close> records the warning about the target.
\<close>

record BCLPNorm =
  logs :: LogPerf
  tomogram_scale :: real
  dose :: "fl list option"
  mapped_dose :: "fl list option"
  mapped_dose_error_from_f_T :: "fl list option"
  mapped_dose_error_from_band :: "fl list option"
  v :: "bool list option"
  dose_iter :: int
  mapped_dose_iter :: int
  mapped_dose_error_from_f_T_iter :: int
  mapped_dose_error_from_band_iter :: int
  v_iter :: int
  dp :: "nat option"
  g0 :: ndarray
  g0_shape :: "nat list"
  clock_reads :: nat
  stdout :: "(int \<times> fl) list"
  warned :: bool

subsection \<open>checkSinogramShape and imposeSinogramConstraints\<close>

definition checkSinogramShape :: "BCLPNorm \<Rightarrow> ndarray \<Rightarrow> string \<Rightarrow> error + ndarray" where
  "checkSinogramShape s g desired_shape =
     (if desired_shape = ''flattened'' then
        (if length (shape g) > 1 then reshape g [prod_list (shape g)] else Inr g)
      else if desired_shape = ''cylindrical'' then
        (if length (shape g) = 1 then reshape g (g0_shape s) else Inr g)
      else Inr g)"

definition imposeSinogramConstraints :: "world \<Rightarrow> options \<Rightarrow> ndarray \<Rightarrow> error + ndarray" where
  "imposeSinogramConstraints W opts g =
     bindE (case bit_depth opts of
              None \<Rightarrow> Inr g
            | Some b \<Rightarrow> bindE (amax (data g)) (\<lambda>m. Inr (discretize W g b (Fin 0, m))))
       (\<lambda>g1. Inr (np_clip g1 (blb opts) (bub opts)))"

subsection \<open>updateVariables\<close>

text \<open>One definition per \<^verbatim>\<open>if\<close> block of the method, in the order of the source.\<close>

definition update_dose :: "world \<Rightarrow> BCLPNorm \<Rightarrow> ndarray \<Rightarrow> error + BCLPNorm" where
  "update_dose W s g_iter =
     (if dose_iter s \<noteq> curr_iter (logs s) then
        bindE (checkSinogramShape s g_iter ''cylindrical'')
          (\<lambda>g. Inr (s\<lparr>dose := Some (map (\<lambda>x. fmul x (Fin (tomogram_scale s))) (P_backward W g)),
                      dose_iter := curr_iter (logs s)\<rparr>))
      else Inr s)"

definition update_mapped_dose :: "options \<Rightarrow> BCLPNorm \<Rightarrow> error + BCLPNorm" where
  "update_mapped_dose opts s =
     (if mapped_dose_iter s \<noteq> curr_iter (logs s) then
        bindE (not_None (dose s))
          (\<lambda>d. Inr (s\<lparr>mapped_dose := Some (rm_map (response_model opts) d),
                      mapped_dose_iter := curr_iter (logs s)\<rparr>))
      else Inr s)"

definition update_error_from_f_T :: "world \<Rightarrow> BCLPNorm \<Rightarrow> error + BCLPNorm" where
  "update_error_from_f_T W s =
     (if mapped_dose_error_from_f_T_iter s \<noteq> curr_iter (logs s) then
        bindE (not_None (mapped_dose s))
          (\<lambda>m. bindE (ew2 fsub m (target_array W))
            (\<lambda>e. Inr (s\<lparr>mapped_dose_error_from_f_T := Some e,
                        mapped_dose_error_from_f_T_iter := curr_iter (logs s)\<rparr>)))
      else Inr s)"

definition update_error_from_band :: "options \<Rightarrow> BCLPNorm \<Rightarrow> error + BCLPNorm" where
  "update_error_from_band opts s =
     (if mapped_dose_error_from_band_iter s \<noteq> curr_iter (logs s) then
        bindE (not_None (mapped_dose_error_from_f_T s))
          (\<lambda>e. Inr (s\<lparr>mapped_dose_error_from_band :=
                        Some (map (\<lambda>x. fsub (fabs x) (Fin (eps opts))) e),
                      mapped_dose_error_from_band_iter := curr_iter (logs s)\<rparr>))
      else Inr s)"

definition update_v :: "BCLPNorm \<Rightarrow> error + BCLPNorm" where
  "update_v s =
     (if v_iter s \<noteq> curr_iter (logs s) then
        bindE (not_None (mapped_dose_error_from_band s))
          (\<lambda>b. Inr (s\<lparr>v := Some (map fgt0 b), v_iter := curr_iter (logs s)\<rparr>))
      else Inr s)"

definition updateVariables :: "world \<Rightarrow> options \<Rightarrow> BCLPNorm \<Rightarrow> ndarray \<Rightarrow> error + BCLPNorm" where
  "updateVariables W opts s g_iter =
     bindE (update_dose W s g_iter) (\<lambda>s1.
     bindE (update_mapped_dose opts s1) (\<lambda>s2.
     bindE (update_error_from_f_T W s2) (\<lambda>s3.
     bindE (update_error_from_band opts s3) (\<lambda>s4.
     update_v s4))))"

subsection \<open>computeLoss and computeLossGradient\<close>

definition dvol :: real where
  "dvol = 1"

definition loss_integrand :: "options \<Rightarrow> BCLPNorm \<Rightarrow> error + fl list" where
  "loss_integrand opts s =
     bindE (not_None (v s)) (\<lambda>vs.
     bindE (times_weight (map of_flag vs) (weight opts)) (\<lambda>vw.
     bindE (not_None (mapped_dose_error_from_band s)) (\<lambda>b.
     ew2 fmul vw (map (\<lambda>x. fpow x (p opts)) b))))"

text \<open>The value of the local variable \<^verbatim>\<open>loss\<close>, computed from the cached arrays.\<close>

definition loss_value :: "options \<Rightarrow> BCLPNorm \<Rightarrow> error + fl" where
  "loss_value opts s =
     bindE (loss_integrand opts s) (\<lambda>li.
     bindE (py_div (q opts) (p opts)) (\<lambda>e.
     Inr (fpow (fmul (fsum li) (Fin dvol)) e)))"

definition computeLoss :: "world \<Rightarrow> options \<Rightarrow> BCLPNorm \<Rightarrow> ndarray \<Rightarrow> error + BCLPNorm \<times> fl" where
  "computeLoss W opts s g_iter =
     bindE (updateVariables W opts s g_iter) (\<lambda>s1.
     bindE (loss_value opts s1) (\<lambda>l.
     bindE (py_set (loss (logs s1)) (curr_iter (logs s1)) l) (\<lambda>ls.
     Inr (s1\<lparr>logs := (logs s1)\<lparr>loss := ls\<rparr>\<rparr>, l))))"

definition gradient_operand :: "options \<Rightarrow> BCLPNorm \<Rightarrow> error + fl list" where
  "gradient_operand opts s =
     bindE (not_None (v s)) (\<lambda>vs.
     bindE (times_weight (map of_flag vs) (weight opts)) (\<lambda>vw.
     bindE (not_None (mapped_dose_error_from_band s)) (\<lambda>b.
     bindE (ew2 fmul vw (map (\<lambda>x. fpow x (p opts - 1)) b)) (\<lambda>a1.
     bindE (not_None (mapped_dose_error_from_f_T s)) (\<lambda>e.
     bindE (ew2 fmul a1 (map fsign e)) (\<lambda>a2.
     bindE (not_None (dose s)) (\<lambda>d.
     ew2 fmul a2 (dmapdf (response_model opts) d))))))))"

definition computeLossGradient ::
  "world \<Rightarrow> options \<Rightarrow> BCLPNorm \<Rightarrow> ndarray \<Rightarrow> error + BCLPNorm \<times> ndarray" where
  "computeLossGradient W opts s g_iter =
     bindE (updateVariables W opts s g_iter) (\<lambda>s1.
     bindE (gradient_operand opts s1) (\<lambda>operand.
     bindE (py_get (loss (logs s1)) (curr_iter (logs s1) - 1)) (\<lambda>prev.
     bindE (py_div (q opts - p opts) (q opts)) (\<lambda>e.
     bindE (checkSinogramShape s1
              (scalar_times (fmul (Fin (q opts)) (fpow prev e)) (P_forward W operand))
              ''flattened'') (\<lambda>loss_grad.
     Inr (s1, loss_grad))))))"

subsection \<open>callback\<close>

text \<open>
  The method records the iteration time, prints when \<open>verbose\<close> is \<^verbatim>\<open>'time'\<close> or
  \<^verbatim>\<open>'plot'\<close>, calls \<^verbatim>\<open>self.dp.update\<close>, and increments the iteration index. Reading
  \<^verbatim>\<open>self.dp\<close> on an object that never assigned it raises \<^verbatim>\<open>AttributeError\<close>. The
  argument \<open>g_iter\<close> is not used by the method.
\<close>

definition callback :: "world \<Rightarrow> options \<Rightarrow> BCLPNorm \<Rightarrow> ndarray \<Rightarrow> error + BCLPNorm" where
  "callback W opts s g_iter =
     bindE (recordIterTime (logs s) (perf_counter W (clock_reads s))) (\<lambda>lg.
     bindE (if verbose opts = ''time'' \<or> verbose opts = ''plot'' then
              bindE (py_get (iter_times lg) (curr_iter lg))
                (\<lambda>t. Inr (s\<lparr>logs := lg, clock_reads := Suc (clock_reads s),
                            stdout := stdout s @ [(curr_iter lg, t)]\<rparr>))
            else Inr (s\<lparr>logs := lg, clock_reads := Suc (clock_reads s)\<rparr>)) (\<lambda>s1.
     bindE (case dp s1 of
              None \<Rightarrow> Inl AttributeError
            | Some k \<Rightarrow> Inr (s1\<lparr>dp := Some (Suc k)\<rparr>)) (\<lambda>s2.
     Inr (s2\<lparr>logs := (logs s2)\<lparr>curr_iter := curr_iter (logs s2) + 1\<rparr>\<rparr>))))"

subsection \<open>gradientDescent\<close>

text \<open>The body of the loop, and the loop over \<^verbatim>\<open>range(n_iter)\<close>.\<close>

definition gd_step :: "world \<Rightarrow> options \<Rightarrow> BCLPNorm \<Rightarrow> ndarray \<Rightarrow> error + BCLPNorm \<times> ndarray" where
  "gd_step W opts s g_iter =
     bindE (computeLossGradient W opts s g_iter) (\<lambda>(s1, grad).
     bindE (nd_minus g_iter (scalar_times (Fin (learning_rate opts)) grad)) (\<lambda>g1.
     bindE (imposeSinogramConstraints W opts g1) (\<lambda>g2.
     bindE (computeLoss W opts s1 g2) (\<lambda>(s2, l).
     bindE (callback W opts s2 g2) (\<lambda>s3.
     Inr (s3, g2))))))"

fun gd_loop :: "world \<Rightarrow> options \<Rightarrow> nat \<Rightarrow> BCLPNorm \<Rightarrow> ndarray \<Rightarrow> error + BCLPNorm \<times> ndarray" where
  "gd_loop W opts 0 s g_iter = Inr (s, g_iter)"
| "gd_loop W opts (Suc k) s g_iter =
     bindE (gd_step W opts s g_iter) (\<lambda>(s1, g1). gd_loop W opts k s1 g1)"

definition gradientDescent :: "world \<Rightarrow> options \<Rightarrow> BCLPNorm \<Rightarrow> error + BCLPNorm \<times> ndarray" where
  "gradientDescent W opts s =
     bindE (checkSinogramShape s (g0 s) ''flattened'')
       (\<lambda>g_iter. gd_loop W opts (n_iter opts) s g_iter)"

subsection \<open>Construction and minimizeBCLP\<close>

text \<open>
  The object as \<^verbatim>\<open>__init__\<close> has built it just before it evaluates the initial
  sinogram: the log is constructed and timed (the first reading of the clock), the cache
  is empty with every iteration stamp at -1, and the live plot is attached only when
  \<open>verbose\<close> is \<^verbatim>\<open>'plot'\<close>.
\<close>

definition new_object :: "world \<Rightarrow> options \<Rightarrow> real \<Rightarrow> ndarray \<Rightarrow> nat list \<Rightarrow> BCLPNorm" where
  "new_object W opts scale g sh =
     \<lparr>logs = startTiming (LogPerf_init opts) (perf_counter W 0),
      tomogram_scale = scale,
      dose = None,
      mapped_dose = None,
      mapped_dose_error_from_f_T = None,
      mapped_dose_error_from_band = None,
      v = None,
      dose_iter = - 1,
      mapped_dose_iter = - 1,
      mapped_dose_error_from_f_T_iter = - 1,
      mapped_dose_error_from_band_iter = - 1,
      v_iter = - 1,
      dp = (if verbose opts = ''plot'' then Some 0 else None),
      g0 = g,
      g0_shape = sh,
      clock_reads = 1,
      stdout = [],
      warned = (\<not> checkResponseTarget (response_model opts) (target_array W))\<rparr>"

text \<open>The initial sinogram before the constraints, and its recorded shape.\<close>

definition initial_sinogram :: "world \<Rightarrow> options \<Rightarrow> ndarray" where
  "initial_sinogram W opts = P_forward W (map_inv (response_model opts) (target_array W))"

definition BCLPNorm_init :: "world \<Rightarrow> options \<Rightarrow> error + BCLPNorm" where
  "BCLPNorm_init W opts =
     bindE (py_div 1 (real (n_angles W))) (\<lambda>scale.
     bindE (imposeSinogramConstraints W opts
              (filterSinogram W (initial_sinogram W opts) (filter_opt opts))) (\<lambda>g.
     bindE (computeLoss W opts
              (new_object W opts scale g (shape (initial_sinogram W opts))) g) (\<lambda>(s1, l).
     callback W opts s1 g)))"

text \<open>
  \<^verbatim>\<open>minimizeBCLP\<close> returns the array given to \<^verbatim>\<open>geometry.Sinogram\<close>, the attribute
  \<^verbatim>\<open>bclp.dose\<close> given to \<^verbatim>\<open>geometry.Reconstruction\<close>, and the log. The final call of
  \<^verbatim>\<open>checkSinogramShape\<close> passes no \<^verbatim>\<open>desired_shape\<close>, so the default
  \<^verbatim>\<open>'flattened'\<close> applies.
\<close>

definition minimizeBCLP :: "world \<Rightarrow> options \<Rightarrow> error + ndarray \<times> fl list option \<times> LogPerf" where
  "minimizeBCLP W opts =
     bindE (BCLPNorm_init W opts) (\<lambda>bclp.
     bindE (gradientDescent W opts bclp) (\<lambda>(s1, g_opt).
     bindE (checkSinogramShape s1 g_opt ''flattened'') (\<lambda>g_final.
     Inr (g_final, dose s1, logs s1))))"

subsection \<open>The loss of a sinogram, in the words of the specification\<close>

text \<open>
  The dose of a sinogram is its back-projection scaled by \<open>1/n_angles\<close>; the loss at a
  sinogram is computed from the chain dose, mapped dose, error from the target, error
  from the band, violation indicator of that sinogram. These two definitions follow the
  specification's data model; they are what the cached values of the code are compared
  with.
\<close>

definition spec_dose :: "world \<Rightarrow> ndarray \<Rightarrow> fl list" where
  "spec_dose W g = map (\<lambda>x. fmul x (Fin (1 / real (n_angles W)))) (P_backward W g)"

definition spec_loss :: "world \<Rightarrow> options \<Rightarrow> ndarray \<Rightarrow> error + fl" where
  "spec_loss W opts g =
     bindE (ew2 fsub (rm_map (response_model opts) (spec_dose W g)) (target_array W))
       (\<lambda>errorFromTarget.
     bindE (times_weight
              (map (\<lambda>x. of_flag (fgt0 (fsub (fabs x) (Fin (eps opts))))) errorFromTarget)
              (weight opts)) (\<lambda>vw.
     bindE (ew2 fmul vw
              (map (\<lambda>x. fpow (fsub (fabs x) (Fin (eps opts))) (p opts)) errorFromTarget))
       (\<lambda>integrand.
     bindE (py_div (q opts) (p opts)) (\<lambda>e.
     Inr (fpow (fmul (fsum integrand) (Fin dvol)) e)))))"

subsection \<open>A small run\<close>

text \<open>
  Two voxels with target 1, a projector whose sinogram has the native shape \<open>(1, 2)\<close>
  and whose back-projection returns the sinogram's elements, two angles, the identity
  response, no filter, no bit depth, bounds 0 and 2, \<open>p = q = 2\<close>, step 1/2, one
  iteration, live plot on. The clock's \<open>k\<close>-th reading is \<open>k\<close>.
\<close>

definition ex_response :: response_model_t where
  "ex_response =
     \<lparr>rm_map = (\<lambda>d. d), map_inv = (\<lambda>f. f), dmapdf = map (\<lambda>x. Fin 1),
      checkResponseTarget = (\<lambda>f. True)\<rparr>"

definition ex_world :: world where
  "ex_world =
     \<lparr>target_array = [Fin 1, Fin 1],
      n_angles = 2,
      P_forward = (\<lambda>f. \<lparr>shape = [1, length f], data = f\<rparr>),
      P_backward = data,
      filterSinogram = (\<lambda>g kind. g),
      discretize = (\<lambda>g b r. g),
      perf_counter = real\<rparr>"

definition ex_options :: options where
  "ex_options =
     \<lparr>n_iter = 1, response_model = ex_response, eps = 0, weight = Scalar (Fin 1),
      p = 2, q = 2, learning_rate = 1 / 2, blb = 0, bub = 2, bit_depth = None,
      filter_opt = ''none'', verbose = ''plot''\<rparr>"

subsection \<open>The calls of computeLossGradient during a run\<close>

text \<open>
  \<^verbatim>\<open>computeLossGradient\<close> is called in one place, the first statement of the loop body
  of \<^verbatim>\<open>gradientDescent\<close>. \<open>gd_calls\<close> lists the object and the argument of every
  such call of a loop of \<open>k\<close> iterations, in order; the list ends with the iteration
  in which an exception is raised. \<open>gradient_calls\<close> is that list for a whole run of
  \<^verbatim>\<open>minimizeBCLP\<close>, empty when construction raises.
\<close>

fun gd_calls :: "world \<Rightarrow> options \<Rightarrow> nat \<Rightarrow> BCLPNorm \<Rightarrow> ndarray \<Rightarrow> (BCLPNorm \<times> ndarray) list" where
  "gd_calls W opts 0 s g_iter = []"
| "gd_calls W opts (Suc k) s g_iter =
     (s, g_iter) #
     (case gd_step W opts s g_iter of
        Inl e \<Rightarrow> []
      | Inr (s1, g1) \<Rightarrow> gd_calls W opts k s1 g1)"

definition gradient_calls :: "world \<Rightarrow> options \<Rightarrow> (BCLPNorm \<times> ndarray) list" where
  "gradient_calls W opts =
     (case BCLPNorm_init W opts of
        Inl e \<Rightarrow> []
      | Inr bclp \<Rightarrow>
          (case checkSinogramShape bclp (g0 bclp) ''flattened'' of
             Inl e \<Rightarrow> []
           | Inr g_iter \<Rightarrow> gd_calls W opts (n_iter opts) bclp g_iter))"

subsection \<open>The gradient, in the words of the specification\<close>

text \<open>
  The per-voxel operand written voxel by voxel: violation indicator times weight times
  (error from the band) to the power \<open>p - 1\<close> times the sign of the error from the
  target times the derivative of the response at the dose. \<open>flat\<close> is the flattened
  form of a sinogram.
\<close>

definition weight_at :: "weight_t \<Rightarrow> nat \<Rightarrow> fl" where
  "weight_at w i = (case w of Scalar c \<Rightarrow> c | Array ws \<Rightarrow> ws ! i)"

definition weight_fits :: "weight_t \<Rightarrow> nat \<Rightarrow> bool" where
  "weight_fits w n = (case w of Scalar c \<Rightarrow> True | Array ws \<Rightarrow> length ws = n)"

definition spec_operand :: "options \<Rightarrow> bool list \<Rightarrow> fl list \<Rightarrow> fl list \<Rightarrow> fl list \<Rightarrow> fl list" where
  "spec_operand opts violation errorFromBand errorFromTarget dmap =
     map (\<lambda>i. fmul (fmul (fmul (fmul (of_flag (violation ! i)) (weight_at (weight opts) i))
                               (fpow (errorFromBand ! i) (p opts - 1)))
                         (fsign (errorFromTarget ! i)))
                   (dmap ! i))
       [0..<length violation]"

definition flat :: "ndarray \<Rightarrow> ndarray" where
  "flat g = (if length (shape g) > 1 then g\<lparr>shape := [prod_list (shape g)]\<rparr> else g)"

subsection \<open>The quantities derived from a sinogram, in the words of the specification\<close>

text \<open>
  The chain of the specification's data model for a sinogram \<open>g\<close> in cylindrical form
  and the scale \<open>c\<close> the object applies to a back-projection: the dose is the
  back-projection of \<open>g\<close> times \<open>c\<close>, the mapped dose is the response to the dose, the
  error from the target is the mapped dose minus the target, the error from the band is
  its absolute value minus \<open>eps\<close>, and the violation indicator says where the error from
  the band is positive. \<open>operand_of\<close> is the per-voxel operand of these quantities and
  \<open>gradient_of\<close> the flattened forward projection of the operand, scaled by
  \<open>q * previousLoss ** ((q - p) / q)\<close>. These definitions do not look at the object's
  cache; they are what the results of the code are compared with.
\<close>

definition dose_of :: "world \<Rightarrow> real \<Rightarrow> ndarray \<Rightarrow> fl list" where
  "dose_of W c g = map (\<lambda>x. fmul x (Fin c)) (P_backward W g)"

definition mapped_dose_of :: "world \<Rightarrow> options \<Rightarrow> real \<Rightarrow> ndarray \<Rightarrow> fl list" where
  "mapped_dose_of W opts c g = rm_map (response_model opts) (dose_of W c g)"

definition error_from_target_of :: "world \<Rightarrow> options \<Rightarrow> real \<Rightarrow> ndarray \<Rightarrow> fl list" where
  "error_from_target_of W opts c g = map2 fsub (mapped_dose_of W opts c g) (target_array W)"

definition error_from_band_of :: "world \<Rightarrow> options \<Rightarrow> real \<Rightarrow> ndarray \<Rightarrow> fl list" where
  "error_from_band_of W opts c g =
     map (\<lambda>x. fsub (fabs x) (Fin (eps opts))) (error_from_target_of W opts c g)"

definition violation_of :: "world \<Rightarrow> options \<Rightarrow> real \<Rightarrow> ndarray \<Rightarrow> bool list" where
  "violation_of W opts c g = map fgt0 (error_from_band_of W opts c g)"

definition operand_of :: "world \<Rightarrow> options \<Rightarrow> real \<Rightarrow> ndarray \<Rightarrow> fl list" where
  "operand_of W opts c g =
     spec_operand opts (violation_of W opts c g) (error_from_band_of W opts c g)
       (error_from_target_of W opts c g) (dmapdf (response_model opts) (dose_of W c g))"

definition gradient_of :: "world \<Rightarrow> options \<Rightarrow> real \<Rightarrow> ndarray \<Rightarrow> fl \<Rightarrow> ndarray" where
  "gradient_of W opts c g previousLoss =
     flat (scalar_times (fmul (Fin (q opts)) (fpow previousLoss ((q opts - p opts) / q opts)))
             (P_forward W (operand_of W opts c g)))"

subsection \<open>Predicates on array elements\<close>

fun is_finite :: "fl \<Rightarrow> bool" where
  "is_finite (Fin x) = True"
| "is_finite a = False"

fun not_nan :: "fl \<Rightarrow> bool" where
  "not_nan NaN = False"
| "not_nan a = True"

fun in_bounds :: "real \<Rightarrow> real \<Rightarrow> fl \<Rightarrow> bool" where
  "in_bounds lo hi (Fin x) = (lo \<le> x \<and> x \<le> hi)"
| "in_bounds lo hi a = False"



text \<open>Two objects that differ at most in the cached arrays and their stamps.\<close>

definition same_frame :: "BCLPNorm \<Rightarrow> BCLPNorm \<Rightarrow> bool" where
  "same_frame s s' =
     (logs s' = logs s \<and> dp s' = dp s \<and> g0 s' = g0 s \<and> g0_shape s' = g0_shape s
      \<and> tomogram_scale s' = tomogram_scale s \<and> clock_reads s' = clock_reads s
      \<and> stdout s' = stdout s \<and> warned s' = warned s)"

text \<open>An object all of whose five cached arrays carry the iteration stamp \<open>c\<close>.\<close>

definition stamped :: "int \<Rightarrow> BCLPNorm \<Rightarrow> bool" where
  "stamped c s =
     (dose_iter s = c \<and> mapped_dose_iter s = c \<and> mapped_dose_error_from_f_T_iter s = c
      \<and> mapped_dose_error_from_band_iter s = c \<and> v_iter s = c)"

subsection \<open>The quantiser\<close>

text \<open>
  Modelled from the spec: \<^verbatim>\<open>vamtoolbox.util.data.discretize\<close> is not among the sources.
  The specification says that it quantizes the values into \<open>bit_depth\<close> levels over the
  range it is given. The levels are taken equally spaced from the lower to the upper end
  of the range, a value goes to the nearest level, and a value outside the range to the
  level at that end; a range that is not a pair of finite numbers gives \<open>nan\<close>.
\<close>

definition level :: "nat \<Rightarrow> real \<Rightarrow> real \<Rightarrow> nat \<Rightarrow> real" where
  "level L lo hi k = (if L \<le> 1 then lo else lo + real k * (hi - lo) / real (L - 1))"

definition nearest_level :: "nat \<Rightarrow> real \<Rightarrow> real \<Rightarrow> real \<Rightarrow> nat" where
  "nearest_level L lo hi x =
     (if L \<le> 1 \<or> hi \<le> lo then 0
      else nat (min (int L - 1) (max 0 (round ((x - lo) * real (L - 1) / (hi - lo))))))"

fun quantize :: "nat \<Rightarrow> real \<Rightarrow> real \<Rightarrow> fl \<Rightarrow> fl" where
  "quantize L lo hi NaN = NaN"
| "quantize L lo hi NInf = Fin (level L lo hi 0)"
| "quantize L lo hi (Fin x) = Fin (level L lo hi (nearest_level L lo hi x))"
| "quantize L lo hi PInf = Fin (level L lo hi (L - 1))"

definition discretize_spec :: "ndarray \<Rightarrow> nat \<Rightarrow> fl \<times> fl \<Rightarrow> ndarray" where
  "discretize_spec g L r =
     (case r of
        (Fin lo, Fin hi) \<Rightarrow> g\<lparr>data := map (quantize L lo hi) (data g)\<rparr>
      | _ \<Rightarrow> g\<lparr>data := map (\<lambda>x. NaN) (data g)\<rparr>)"

subsection \<open>The object of the small run\<close>

text \<open>The object that \<^verbatim>\<open>BCLPNorm.__init__\<close> returns in the small run, and the options
  of the same run with the live plot off.\<close>

definition ex_object :: BCLPNorm where
  "ex_object =
     \<lparr>logs =
        \<lparr>curr_iter = 1, loss = [Fin (1 / 2), NaN], l0_v = [NaN, NaN], l1_v = [NaN, NaN],
         l2_v = [NaN, NaN], lf_v = [NaN, NaN], l0_all = [NaN, NaN], l1_all = [NaN, NaN],
         l2_all = [NaN, NaN], lf_all = [NaN, NaN], ver = [NaN, NaN],
         iter_times = [Fin 1, Fin 0], t0 = Fin 0\<rparr>,
      tomogram_scale = 1 / 2,
      dose = Some [Fin (1 / 2), Fin (1 / 2)],
      mapped_dose = Some [Fin (1 / 2), Fin (1 / 2)],
      mapped_dose_error_from_f_T = Some [Fin (- (1 / 2)), Fin (- (1 / 2))],
      mapped_dose_error_from_band = Some [Fin (1 / 2), Fin (1 / 2)],
      v = Some [True, True],
      dose_iter = 0,
      mapped_dose_iter = 0,
      mapped_dose_error_from_f_T_iter = 0,
      mapped_dose_error_from_band_iter = 0,
      v_iter = 0,
      dp = Some 1,
      g0 = \<lparr>shape = [1, 2], data = [Fin 1, Fin 1]\<rparr>,
      g0_shape = [1, 2],
      clock_reads = 2,
      stdout = [(0, Fin 1)],
      warned = False\<rparr>"

definition ex_options_off :: options where
  "ex_options_off = ex_options\<lparr>verbose := ''off''\<rparr>"

text \<open>The initial sinogram of the small run in flattened form: the loop's first iterate.\<close>

definition ex_flat :: ndarray where
  "ex_flat = \<lparr>shape = [2], data = [Fin 1, Fin 1]\<rparr>"

text \<open>The sinogram after the small run's gradient step.\<close>

definition ex_stepped :: ndarray where
  "ex_stepped = \<lparr>shape = [2], data = [Fin (3 / 2), Fin (3 / 2)]\<rparr>"

text \<open>The same two sinograms in the cylindrical form \<open>(1, 2)\<close>; the first is the
  constrained initial sinogram that \<^verbatim>\<open>__init__\<close> evaluates.\<close>

definition ex_cylindrical :: ndarray where
  "ex_cylindrical = \<lparr>shape = [1, 2], data = [Fin 1, Fin 1]\<rparr>"

definition ex_stepped_cylindrical :: ndarray where
  "ex_stepped_cylindrical = \<lparr>shape = [1, 2], data = [Fin (3 / 2), Fin (3 / 2)]\<rparr>"

text \<open>The object of the small run after the gradient call of its iteration: the cache
  of \<open>ex_object\<close> with the five stamps at the current iteration index 1.\<close>

definition ex_refreshed :: BCLPNorm where
  "ex_refreshed =
     ex_object\<lparr>dose_iter := 1, mapped_dose_iter := 1, mapped_dose_error_from_f_T_iter := 1,
                mapped_dose_error_from_band_iter := 1, v_iter := 1\<rparr>"



text \<open>The small run's collaborators with the quantiser modelled above, its options with a
  bit depth of 2, and a sinogram with values between 0 and 10.\<close>

definition ex_quant_world :: world where
  "ex_quant_world = ex_world\<lparr>discretize := discretize_spec\<rparr>"

definition ex_quant_options :: options where
  "ex_quant_options = ex_options\<lparr>bit_depth := Some 2\<rparr>"

definition ex_sinogram :: ndarray where
  "ex_sinogram = \<lparr>shape = [3], data = [Fin 0, Fin 4, Fin 10]\<rparr>"

section \<open>Properties\<close>

subsection \<open>Unfolding the model on a concrete run\<close>

lemmas numeric_defs =
  fsub_def of_flag_def fsum_def dvol_def py_div_def py_index_def py_get_def py_set_def
  ew2_def times_weight_def amax_def reshape_def np_clip_def scalar_times_def nd_minus_def
  np_zeros_def zeros_times_nan_def is_whole_def inf_times_def

lemmas object_defs =
  LogPerf_init_def startTiming_def recordIterTime_def checkSinogramShape_def
  imposeSinogramConstraints_def update_dose_def update_mapped_dose_def
  update_error_from_f_T_def update_error_from_band_def update_v_def updateVariables_def
  loss_integrand_def loss_value_def computeLoss_def gradient_operand_def
  computeLossGradient_def callback_def gd_step_def gradientDescent_def new_object_def
  initial_sinogram_def BCLPNorm_init_def minimizeBCLP_def

lemmas ex_defs = ex_response_def ex_world_def ex_options_def

lemmas derived_defs =
  dose_of_def mapped_dose_of_def error_from_target_of_def error_from_band_of_def
  violation_of_def operand_of_def gradient_of_def

lemma ex_object_constructed: "BCLPNorm_init ex_world ex_options = Inr ex_object"
  by (simp add: ex_defs object_defs numeric_defs ex_object_def power_divide)

subsection \<open>Sequencing, and what updateVariables leaves alone\<close>

lemma bindE_Inr_iff: "bindE m f = Inr y \<longleftrightarrow> (\<exists>x. m = Inr x \<and> f x = Inr y)"
  by (cases m) auto

lemma bindE_case: "bindE m f = (case m of Inl e \<Rightarrow> Inl e | Inr x \<Rightarrow> f x)"
  by (cases m) auto

lemma same_frame_trans: "same_frame a b \<Longrightarrow> same_frame b c \<Longrightarrow> same_frame a c"
  by (simp add: same_frame_def)

lemma update_dose_frame: "update_dose W s g = Inr s' \<Longrightarrow> same_frame s s'"
  by (auto simp: update_dose_def same_frame_def bindE_Inr_iff split: if_splits)

lemma update_mapped_dose_frame: "update_mapped_dose opts s = Inr s' \<Longrightarrow> same_frame s s'"
  by (auto simp: update_mapped_dose_def same_frame_def bindE_Inr_iff split: if_splits)

lemma update_error_from_f_T_frame: "update_error_from_f_T W s = Inr s' \<Longrightarrow> same_frame s s'"
  by (auto simp: update_error_from_f_T_def same_frame_def bindE_Inr_iff split: if_splits)

lemma update_error_from_band_frame: "update_error_from_band opts s = Inr s' \<Longrightarrow> same_frame s s'"
  by (auto simp: update_error_from_band_def same_frame_def bindE_Inr_iff split: if_splits)

lemma update_v_frame: "update_v s = Inr s' \<Longrightarrow> same_frame s s'"
  by (auto simp: update_v_def same_frame_def bindE_Inr_iff split: if_splits)

lemma updateVariables_frame:
  assumes "updateVariables W opts s g = Inr s'"
  shows "same_frame s s'"
proof -
  from assms obtain s1 s2 s3 s4 where
    "update_dose W s g = Inr s1" "update_mapped_dose opts s1 = Inr s2"
    "update_error_from_f_T W s2 = Inr s3" "update_error_from_band opts s3 = Inr s4"
    "update_v s4 = Inr s'"
    unfolding updateVariables_def bindE_Inr_iff by blast
  then show ?thesis
    by (meson same_frame_trans update_dose_frame update_mapped_dose_frame
        update_error_from_f_T_frame update_error_from_band_frame update_v_frame)
qed

subsection \<open>The log\<close>

lemma zeros_times_nan_replicate: "zeros_times_nan n = replicate n NaN"
  by (simp add: zeros_times_nan_def np_zeros_def)

text \<open>
  C5 (as amended). For every \<open>n_iter\<close>, the constructor of the log allocates the loss
  array, the eight error-norm arrays and the convergence-error array \<open>ver\<close> with
  \<open>n_iter + 1\<close> slots that all hold \<open>nan\<close>, and sets the iteration index to 0. The
  array of iteration times has \<open>n_iter + 1\<close> slots as well, but they hold 0.0. The
  constructor leaves the start timestamp \<open>t0\<close> at \<open>nan\<close>; it is \<open>startTiming\<close>,
  called by the optimizer right after the constructor, that records the clock's reading
  and leaves the arrays as they are.
\<close>

theorem LogPerf_init_arrays:
  "curr_iter (LogPerf_init opts) = 0
   \<and> loss (LogPerf_init opts) = replicate (n_iter opts + 1) NaN
   \<and> l0_v (LogPerf_init opts) = replicate (n_iter opts + 1) NaN
   \<and> l1_v (LogPerf_init opts) = replicate (n_iter opts + 1) NaN
   \<and> l2_v (LogPerf_init opts) = replicate (n_iter opts + 1) NaN
   \<and> lf_v (LogPerf_init opts) = replicate (n_iter opts + 1) NaN
   \<and> l0_all (LogPerf_init opts) = replicate (n_iter opts + 1) NaN
   \<and> l1_all (LogPerf_init opts) = replicate (n_iter opts + 1) NaN
   \<and> l2_all (LogPerf_init opts) = replicate (n_iter opts + 1) NaN
   \<and> lf_all (LogPerf_init opts) = replicate (n_iter opts + 1) NaN
   \<and> ver (LogPerf_init opts) = replicate (n_iter opts + 1) NaN
   \<and> iter_times (LogPerf_init opts) = replicate (n_iter opts + 1) (Fin 0)
   \<and> t0 (LogPerf_init opts) = NaN
   \<and> startTiming (LogPerf_init opts) now = (LogPerf_init opts)\<lparr>t0 := Fin now\<rparr>"
  by (simp add: LogPerf_init_def startTiming_def zeros_times_nan_replicate np_zeros_def)

text \<open>
  C5 as stated fails on the iteration times: for one iteration the constructor fills
  them with 0.0, not with \<open>nan\<close>, and it records no timestamp.
\<close>

theorem LogPerf_init_iter_times_not_nan:
  "iter_times (LogPerf_init ex_options) = [Fin 0, Fin 0]
   \<and> iter_times (LogPerf_init ex_options) \<noteq> replicate (n_iter ex_options + 1) NaN
   \<and> t0 (LogPerf_init ex_options) = NaN"
  by (simp add: LogPerf_init_def np_zeros_def ex_options_def)

subsection \<open>The cache is keyed on the iteration index alone\<close>

text \<open>
  C1 (the code departs from the claim). In the small run the loop's only iteration
  moves the sinogram from \<open>(1, 1)\<close> to \<open>(3/2, 3/2)\<close>. The loss of the new sinogram is
  1/8, but \<open>computeLoss\<close> records 1/2 at index 1: the loss of the sinogram before the
  step, which is also what index 0 holds. The gradient call of the same iteration has
  already stamped the cache with the current index, so the loss call recomputes nothing.
\<close>

theorem computeLoss_in_loop_records_stale_loss:
  "\<exists>bclp s1 g1.
     BCLPNorm_init ex_world ex_options = Inr bclp
     \<and> gradientDescent ex_world ex_options bclp = Inr (s1, g1)
     \<and> data (g0 bclp) = [Fin 1, Fin 1]
     \<and> data g1 = [Fin (3 / 2), Fin (3 / 2)]
     \<and> loss (logs s1) = [Fin (1 / 2), Fin (1 / 2)]
     \<and> spec_loss ex_world ex_options (g0 bclp) = Inr (Fin (1 / 2))
     \<and> spec_loss ex_world ex_options g1 = Inr (Fin (1 / 8))"
  by (simp add: ex_defs object_defs numeric_defs spec_loss_def spec_dose_def power_divide)

text \<open>
  C2 (the code departs from the claim). In the small run \<open>minimizeBCLP\<close> returns the
  sinogram \<open>(3/2, 3/2)\<close> together with the dose \<open>(1/2, 1/2)\<close>. The back-projection of
  the returned sinogram scaled by \<open>1/n_angles\<close> is \<open>(3/4, 3/4)\<close>, in the flattened and
  in the native shape alike; the returned dose is that of the initial sinogram.
\<close>

theorem minimizeBCLP_dose_is_of_previous_sinogram:
  "\<exists>g_opt lg.
     minimizeBCLP ex_world ex_options = Inr (g_opt, Some [Fin (1 / 2), Fin (1 / 2)], lg)
     \<and> spec_dose ex_world g_opt = [Fin (3 / 4), Fin (3 / 4)]
     \<and> spec_dose ex_world (g_opt\<lparr>shape := [1, 2]\<rparr>) = [Fin (3 / 4), Fin (3 / 4)]
     \<and> spec_dose ex_world \<lparr>shape = [1, 2], data = [Fin 1, Fin 1]\<rparr>
         = [Fin (1 / 2), Fin (1 / 2)]"
  by (simp add: ex_defs object_defs numeric_defs spec_dose_def power_divide)

text \<open>
  C3 (the code departs from the claim). In the small run the shape recorded at
  construction is \<open>(1, 2)\<close>, and the sinogram that \<open>minimizeBCLP\<close> returns has the
  one-dimensional shape \<open>(2)\<close>: the last \<open>checkSinogramShape\<close> runs with its default
  \<^verbatim>\<open>'flattened'\<close>.
\<close>

theorem minimizeBCLP_returns_flattened_sinogram:
  "\<exists>bclp g_opt d lg.
     BCLPNorm_init ex_world ex_options = Inr bclp
     \<and> g0_shape bclp = [1, 2]
     \<and> minimizeBCLP ex_world ex_options = Inr (g_opt, d, lg)
     \<and> shape g_opt = [2]
     \<and> shape g_opt \<noteq> g0_shape bclp"
  by (simp add: ex_defs object_defs numeric_defs power_divide)

subsection \<open>The callback without a live plot\<close>

lemma computeLoss_dp:
  assumes "computeLoss W opts s g = Inr (s', l)"
  shows "dp s' = dp s"
proof -
  from assms obtain s1 ls where u: "updateVariables W opts s g = Inr s1"
    and s': "s' = s1\<lparr>logs := (logs s1)\<lparr>loss := ls\<rparr>\<rparr>"
    unfolding computeLoss_def bindE_Inr_iff by auto
  from updateVariables_frame[OF u] s' show ?thesis by (simp add: same_frame_def)
qed

lemma callback_without_dp: "dp s = None \<Longrightarrow> isl (callback W opts s g)"
  by (simp add: callback_def bindE_case split: sum.split)

text \<open>
  C4 (the code departs from the claim). Whenever \<open>verbose\<close> is not \<^verbatim>\<open>'plot'\<close>, so in
  particular for \<^verbatim>\<open>'off'\<close> and \<^verbatim>\<open>'time'\<close>, construction of the optimizer raises an
  exception, and so does \<open>minimizeBCLP\<close>: the attribute \<open>dp\<close> is assigned only for
  \<^verbatim>\<open>'plot'\<close>, and the callback that ends construction reads it unconditionally. No
  callback of such a run completes.
\<close>

theorem construction_raises_without_plot:
  assumes "verbose opts \<noteq> ''plot''"
  shows "isl (BCLPNorm_init W opts) \<and> isl (minimizeBCLP W opts)"
proof -
  have init: "isl (BCLPNorm_init W opts)"
  proof (cases "BCLPNorm_init W opts")
    case (Inl e)
    then show ?thesis by simp
  next
    case (Inr s)
    then obtain scale g s1 l where
      cl: "computeLoss W opts (new_object W opts scale g (shape (initial_sinogram W opts))) g
             = Inr (s1, l)"
      and cb: "callback W opts s1 g = Inr s"
      unfolding BCLPNorm_init_def bindE_Inr_iff by auto
    from cl have "dp s1 = dp (new_object W opts scale g (shape (initial_sinogram W opts)))"
      by (rule computeLoss_dp)
    with assms have "dp s1 = None" by (simp add: new_object_def)
    then have "isl (callback W opts s1 g)" by (rule callback_without_dp)
    with cb show ?thesis by simp
  qed
  then have "isl (minimizeBCLP W opts)"
    by (cases "BCLPNorm_init W opts") (simp_all add: minimizeBCLP_def)
  with init show ?thesis by simp
qed

text \<open>The small run with the live plot off: the exception is \<^verbatim>\<open>AttributeError\<close>.\<close>

theorem construction_raises_without_plot_witness:
  "verbose ex_options_off \<noteq> ''plot''
   \<and> isl (BCLPNorm_init ex_world ex_options_off)
   \<and> isl (minimizeBCLP ex_world ex_options_off)
   \<and> BCLPNorm_init ex_world ex_options_off = Inl AttributeError"
proof -
  have h: "verbose ex_options_off \<noteq> ''plot''"
    by (simp add: ex_options_off_def ex_options_def)
  have e: "BCLPNorm_init ex_world ex_options_off = Inl AttributeError"
    by (simp add: ex_options_off_def ex_defs object_defs numeric_defs power_divide)
  from construction_raises_without_plot [OF h, of ex_world] h e show ?thesis by simp
qed

text \<open>
  C8 (the code departs from the claim). In the small run with \<open>verbose\<close> set to
  \<^verbatim>\<open>'off'\<close>, a valid option, the loss of the initial sinogram is written to slot 0,
  but the callback that follows raises \<^verbatim>\<open>AttributeError\<close> before it advances the
  iteration index: the index stays 0, construction and \<open>minimizeBCLP\<close> raise, and the
  loop performs no gradient step at all.
\<close>

theorem construction_stops_after_first_loss:
  "\<exists>g s1 l.
     imposeSinogramConstraints ex_world ex_options_off
       (filterSinogram ex_world (initial_sinogram ex_world ex_options_off)
          (filter_opt ex_options_off)) = Inr g
     \<and> computeLoss ex_world ex_options_off
          (new_object ex_world ex_options_off (1 / 2) g
             (shape (initial_sinogram ex_world ex_options_off))) g = Inr (s1, l)
     \<and> loss (logs s1) = [Fin (1 / 2), NaN]
     \<and> curr_iter (logs s1) = 0
     \<and> callback ex_world ex_options_off s1 g = Inl AttributeError
     \<and> BCLPNorm_init ex_world ex_options_off = Inl AttributeError
     \<and> minimizeBCLP ex_world ex_options_off = Inl AttributeError
     \<and> gradient_calls ex_world ex_options_off = []"
  by (simp add: ex_options_off_def ex_defs object_defs numeric_defs gradient_calls_def
      power_divide)

subsection \<open>The previous loss read by the gradient\<close>

lemma loss_value_cong:
  "v s' = v s \<Longrightarrow> mapped_dose_error_from_band s' = mapped_dose_error_from_band s
   \<Longrightarrow> loss_value opts s' = loss_value opts s"
  by (simp add: loss_value_def loss_integrand_def)

lemma py_index_length: "length ys = length xs \<Longrightarrow> py_index ys i = py_index xs i"
  by (simp add: py_index_def)

lemma py_index_bound: "py_index xs i = Inr j \<Longrightarrow> j < length xs"
  by (auto simp: py_index_def split: if_splits)

lemma py_set_get:
  assumes "py_set xs i x = Inr ys"
  shows "py_get ys i = Inr x"
proof -
  from assms obtain j where j: "py_index xs i = Inr j" and ys: "ys = xs[j := x]"
    unfolding py_set_def bindE_Inr_iff by auto
  from j have "j < length xs" by (rule py_index_bound)
  moreover have "py_index ys i = Inr j"
    using j ys py_index_length[of ys xs i] by simp
  ultimately show ?thesis using ys by (simp add: py_get_def)
qed

lemma computeLoss_post:
  assumes "computeLoss W opts s g = Inr (s2, l)"
  shows "loss_value opts s2 = Inr l
         \<and> py_get (loss (logs s2)) (curr_iter (logs s2)) = Inr l
         \<and> curr_iter (logs s2) = curr_iter (logs s)"
proof -
  from assms obtain s1 ls where u: "updateVariables W opts s g = Inr s1"
    and lv: "loss_value opts s1 = Inr l"
    and ps: "py_set (loss (logs s1)) (curr_iter (logs s1)) l = Inr ls"
    and s2: "s2 = s1\<lparr>logs := (logs s1)\<lparr>loss := ls\<rparr>\<rparr>"
    unfolding computeLoss_def bindE_Inr_iff by auto
  from updateVariables_frame[OF u] have "logs s1 = logs s" by (simp add: same_frame_def)
  moreover have "loss_value opts s2 = loss_value opts s1"
    using s2 by (intro loss_value_cong) simp_all
  ultimately show ?thesis using lv py_set_get[OF ps] s2 by simp
qed

lemma callback_post:
  assumes "callback W opts s g = Inr s'"
  shows "curr_iter (logs s') = curr_iter (logs s) + 1
         \<and> loss (logs s') = loss (logs s)
         \<and> v s' = v s
         \<and> mapped_dose_error_from_band s' = mapped_dose_error_from_band s"
proof -
  from assms obtain lg s1 s2 where
    lg: "recordIterTime (logs s) (perf_counter W (clock_reads s)) = Inr lg"
    and s1: "(if verbose opts = ''time'' \<or> verbose opts = ''plot'' then
              bindE (py_get (iter_times lg) (curr_iter lg))
                (\<lambda>t. Inr (s\<lparr>logs := lg, clock_reads := Suc (clock_reads s),
                            stdout := stdout s @ [(curr_iter lg, t)]\<rparr>))
            else Inr (s\<lparr>logs := lg, clock_reads := Suc (clock_reads s)\<rparr>)) = Inr s1"
    and s2: "(case dp s1 of None \<Rightarrow> Inl AttributeError
              | Some k \<Rightarrow> Inr (s1\<lparr>dp := Some (Suc k)\<rparr>)) = Inr s2"
    and s': "s' = s2\<lparr>logs := (logs s2)\<lparr>curr_iter := curr_iter (logs s2) + 1\<rparr>\<rparr>"
    unfolding callback_def bindE_Inr_iff by blast
  from lg obtain ts where lgd: "lg = (logs s)\<lparr>iter_times := ts\<rparr>"
    unfolding recordIterTime_def bindE_Inr_iff by blast
  from s1 have a: "logs s1 = lg \<and> v s1 = v s
       \<and> mapped_dose_error_from_band s1 = mapped_dose_error_from_band s"
    by (cases "verbose opts = ''time'' \<or> verbose opts = ''plot''")
       (auto simp: bindE_Inr_iff)
  from s2 have b: "logs s2 = logs s1 \<and> v s2 = v s1
       \<and> mapped_dose_error_from_band s2 = mapped_dose_error_from_band s1"
    by (cases "dp s1") auto
  from a b lgd s' show ?thesis by simp
qed

lemma loss_then_callback:
  assumes cl: "computeLoss W opts s g = Inr (s2, l)"
    and cb: "callback W opts s2 g' = Inr s3"
    and ci: "0 \<le> curr_iter (logs s)"
  shows "1 \<le> curr_iter (logs s3)
         \<and> loss_value opts s3 = Inr l
         \<and> py_get (loss (logs s3)) (curr_iter (logs s3) - 1) = Inr l"
proof -
  from callback_post[OF cb] have "loss_value opts s3 = loss_value opts s2"
    by (intro loss_value_cong) simp_all
  with computeLoss_post[OF cl] callback_post[OF cb] ci show ?thesis by clarsimp
qed

lemma computeLossGradient_curr_iter:
  assumes "computeLossGradient W opts s g = Inr (s1, grad)"
  shows "curr_iter (logs s1) = curr_iter (logs s)"
proof -
  from assms have "updateVariables W opts s g = Inr s1"
    unfolding computeLossGradient_def bindE_Inr_iff by auto
  from updateVariables_frame[OF this] show ?thesis by (simp add: same_frame_def)
qed

lemma gd_step_post:
  assumes st: "gd_step W opts s g = Inr (s3, g2)"
    and ci: "1 \<le> curr_iter (logs s)"
  shows "1 \<le> curr_iter (logs s3)
         \<and> (\<exists>l. loss_value opts s3 = Inr l
                \<and> py_get (loss (logs s3)) (curr_iter (logs s3) - 1) = Inr l)"
proof -
  from st obtain s1 grad s2 l where
    gr: "computeLossGradient W opts s g = Inr (s1, grad)"
    and cl: "computeLoss W opts s1 g2 = Inr (s2, l)"
    and cb: "callback W opts s2 g2 = Inr s3"
    by (auto simp: gd_step_def bindE_Inr_iff)
  from computeLossGradient_curr_iter[OF gr] ci have "0 \<le> curr_iter (logs s1)" by simp
  from loss_then_callback[OF cl cb this] show ?thesis by blast
qed

lemma BCLPNorm_init_post:
  assumes "BCLPNorm_init W opts = Inr bclp"
  shows "1 \<le> curr_iter (logs bclp)
         \<and> (\<exists>l. loss_value opts bclp = Inr l
                \<and> py_get (loss (logs bclp)) (curr_iter (logs bclp) - 1) = Inr l)"
proof -
  from assms obtain scale g s1 l where
    cl: "computeLoss W opts (new_object W opts scale g (shape (initial_sinogram W opts))) g
           = Inr (s1, l)"
    and cb: "callback W opts s1 g = Inr bclp"
    unfolding BCLPNorm_init_def bindE_Inr_iff by auto
  have "0 \<le> curr_iter (logs (new_object W opts scale g (shape (initial_sinogram W opts))))"
    by (simp add: new_object_def startTiming_def LogPerf_init_def)
  from loss_then_callback[OF cl cb this] show ?thesis by blast
qed

lemma gd_calls_recorded:
  assumes "1 \<le> curr_iter (logs s)"
    and "\<exists>l. loss_value opts s = Inr l
             \<and> py_get (loss (logs s)) (curr_iter (logs s) - 1) = Inr l"
  shows "\<forall>(s', g') \<in> set (gd_calls W opts k s g).
           1 \<le> curr_iter (logs s')
           \<and> (\<exists>l. loss_value opts s' = Inr l
                  \<and> py_get (loss (logs s')) (curr_iter (logs s') - 1) = Inr l)"
  using assms
proof (induction k arbitrary: s g)
  case 0
  then show ?case by simp
next
  case (Suc k)
  show ?case
  proof (cases "gd_step W opts s g")
    case (Inl e)
    with Suc.prems show ?thesis by simp
  next
    case (Inr r)
    obtain s3 g2 where r: "r = (s3, g2)" by (cases r)
    from gd_step_post[OF Inr[unfolded r] Suc.prems(1)]
    have "\<forall>(s', g') \<in> set (gd_calls W opts k s3 g2).
           1 \<le> curr_iter (logs s')
           \<and> (\<exists>l. loss_value opts s' = Inr l
                  \<and> py_get (loss (logs s')) (curr_iter (logs s') - 1) = Inr l)"
      by (intro Suc.IH) auto
    with Suc.prems Inr r show ?thesis by simp
  qed
qed

text \<open>
  C10. At every call of \<open>computeLossGradient\<close> during a run of \<open>minimizeBCLP\<close>, on
  any input, the current iteration index is at least 1, so the index
  \<open>curr_iter - 1\<close> of the previous-loss lookup is not negative; the lookup succeeds,
  and the slot it reads holds the value that \<open>computeLoss\<close> computes from the arrays
  cached in the object, which is the value the preceding \<open>computeLoss\<close> call (the one
  of construction, or of the previous iteration) wrote there. The slot is therefore
  never one that still holds the initial unset marker.
\<close>

theorem gradient_reads_recorded_loss:
  "\<forall>(s, g) \<in> set (gradient_calls W opts).
     1 \<le> curr_iter (logs s)
     \<and> (\<exists>l. loss_value opts s = Inr l
            \<and> py_get (loss (logs s)) (curr_iter (logs s) - 1) = Inr l)"
proof (cases "BCLPNorm_init W opts")
  case (Inl e)
  then show ?thesis by (simp add: gradient_calls_def)
next
  case (Inr bclp)
  show ?thesis
  proof (cases "checkSinogramShape bclp (g0 bclp) ''flattened''")
    case (Inl e)
    with Inr show ?thesis by (simp add: gradient_calls_def)
  next
    case (Inr g)
    from BCLPNorm_init_post[OF \<open>BCLPNorm_init W opts = Inr bclp\<close>]
    have "\<forall>(s', g') \<in> set (gd_calls W opts (n_iter opts) bclp g).
           1 \<le> curr_iter (logs s')
           \<and> (\<exists>l. loss_value opts s' = Inr l
                  \<and> py_get (loss (logs s')) (curr_iter (logs s') - 1) = Inr l)"
      by (intro gd_calls_recorded) auto
    with Inr \<open>BCLPNorm_init W opts = Inr bclp\<close> show ?thesis
      by (simp add: gradient_calls_def)
  qed
qed

text \<open>The small run makes one such call, on the constructed object: the index is 1 and
  slot 0 holds the loss 1/2.\<close>

theorem gradient_reads_recorded_loss_witness:
  "\<exists>s g. gradient_calls ex_world ex_options = [(s, g)]
     \<and> s = ex_object
     \<and> curr_iter (logs s) = 1
     \<and> loss_value ex_options s = Inr (Fin (1 / 2))
     \<and> py_get (loss (logs s)) (curr_iter (logs s) - 1) = Inr (Fin (1 / 2))"
proof -
  have calls: "gradient_calls ex_world ex_options
                 = [(ex_object, \<lparr>shape = [2], data = [Fin 1, Fin 1]\<rparr>)]"
    by (simp add: gradient_calls_def ex_defs object_defs numeric_defs ex_object_def
        power_divide)
  have lv: "loss_value ex_options ex_object = Inr (Fin (1 / 2))"
    by (simp add: ex_object_def ex_options_def loss_value_def loss_integrand_def numeric_defs
        power_divide)
  from gradient_reads_recorded_loss[of ex_world ex_options] calls
  have "\<exists>l. loss_value ex_options ex_object = Inr l
           \<and> py_get (loss (logs ex_object)) (curr_iter (logs ex_object) - 1) = Inr l"
    by simp
  with lv have "py_get (loss (logs ex_object)) (curr_iter (logs ex_object) - 1)
                  = Inr (Fin (1 / 2))"
    by auto
  with calls lv show ?thesis by (simp add: ex_object_def)
qed

subsection \<open>The iteration stamps of the cache\<close>

lemma update_dose_stamp:
  "update_dose W s g = Inr s' \<Longrightarrow> dose_iter s' = curr_iter (logs s)"
  by (auto simp: update_dose_def bindE_Inr_iff split: if_splits)

lemma update_dose_stale:
  "dose_iter s \<noteq> curr_iter (logs s) \<Longrightarrow> update_dose W s g = Inr s' \<Longrightarrow>
     \<exists>gc. checkSinogramShape s g ''cylindrical'' = Inr gc
        \<and> dose s' = Some (map (\<lambda>x. fmul x (Fin (tomogram_scale s))) (P_backward W gc))"
  by (auto simp: update_dose_def bindE_Inr_iff)

lemma update_mapped_dose_stamp:
  "update_mapped_dose opts s = Inr s' \<Longrightarrow>
     mapped_dose_iter s' = curr_iter (logs s) \<and> dose_iter s' = dose_iter s \<and> dose s' = dose s"
  by (auto simp: update_mapped_dose_def bindE_Inr_iff split: if_splits)

lemma update_error_from_f_T_stamp:
  "update_error_from_f_T W s = Inr s' \<Longrightarrow>
     mapped_dose_error_from_f_T_iter s' = curr_iter (logs s)
     \<and> mapped_dose_iter s' = mapped_dose_iter s \<and> dose_iter s' = dose_iter s
     \<and> dose s' = dose s"
  by (auto simp: update_error_from_f_T_def bindE_Inr_iff split: if_splits)

lemma update_error_from_band_stamp:
  "update_error_from_band opts s = Inr s' \<Longrightarrow>
     mapped_dose_error_from_band_iter s' = curr_iter (logs s)
     \<and> mapped_dose_error_from_f_T_iter s' = mapped_dose_error_from_f_T_iter s
     \<and> mapped_dose_iter s' = mapped_dose_iter s \<and> dose_iter s' = dose_iter s
     \<and> dose s' = dose s"
  by (auto simp: update_error_from_band_def bindE_Inr_iff split: if_splits)

lemma update_v_stamp:
  "update_v s = Inr s' \<Longrightarrow>
     v_iter s' = curr_iter (logs s)
     \<and> mapped_dose_error_from_band_iter s' = mapped_dose_error_from_band_iter s
     \<and> mapped_dose_error_from_f_T_iter s' = mapped_dose_error_from_f_T_iter s
     \<and> mapped_dose_iter s' = mapped_dose_iter s \<and> dose_iter s' = dose_iter s
     \<and> dose s' = dose s"
  by (auto simp: update_v_def bindE_Inr_iff split: if_splits)

lemma updateVariables_steps:
  assumes "updateVariables W opts s g = Inr s'"
  obtains s1 s2 s3 s4 where
    "update_dose W s g = Inr s1" "update_mapped_dose opts s1 = Inr s2"
    "update_error_from_f_T W s2 = Inr s3" "update_error_from_band opts s3 = Inr s4"
    "update_v s4 = Inr s'"
  using assms unfolding updateVariables_def bindE_Inr_iff by blast

lemma updateVariables_stamped:
  assumes "updateVariables W opts s g = Inr s'"
  shows "stamped (curr_iter (logs s)) s'"
proof -
  from assms obtain s1 s2 s3 s4 where
    a: "update_dose W s g = Inr s1" and b: "update_mapped_dose opts s1 = Inr s2"
    and c: "update_error_from_f_T W s2 = Inr s3" and d: "update_error_from_band opts s3 = Inr s4"
    and e: "update_v s4 = Inr s'"
    by (rule updateVariables_steps)
  have "logs s1 = logs s" "logs s2 = logs s1" "logs s3 = logs s2" "logs s4 = logs s3"
    using update_dose_frame[OF a] update_mapped_dose_frame[OF b]
      update_error_from_f_T_frame[OF c] update_error_from_band_frame[OF d]
    by (simp_all add: same_frame_def)
  with update_dose_stamp[OF a] update_mapped_dose_stamp[OF b] update_error_from_f_T_stamp[OF c]
    update_error_from_band_stamp[OF d] update_v_stamp[OF e]
  show ?thesis by (simp add: stamped_def)
qed

lemma updateVariables_stale_dose:
  assumes st: "dose_iter s \<noteq> curr_iter (logs s)"
    and u: "updateVariables W opts s g = Inr s'"
  shows "\<exists>gc. checkSinogramShape s g ''cylindrical'' = Inr gc
          \<and> dose s' = Some (map (\<lambda>x. fmul x (Fin (tomogram_scale s))) (P_backward W gc))"
proof -
  from u obtain s1 s2 s3 s4 where
    a: "update_dose W s g = Inr s1" and b: "update_mapped_dose opts s1 = Inr s2"
    and c: "update_error_from_f_T W s2 = Inr s3" and d: "update_error_from_band opts s3 = Inr s4"
    and e: "update_v s4 = Inr s'"
    by (rule updateVariables_steps)
  from update_mapped_dose_stamp[OF b] update_error_from_f_T_stamp[OF c]
    update_error_from_band_stamp[OF d] update_v_stamp[OF e]
  have "dose s' = dose s1" by simp
  with update_dose_stale[OF st a] show ?thesis by simp
qed

lemma updateVariables_stamped_noop:
  "stamped (curr_iter (logs s)) s \<Longrightarrow> updateVariables W opts s g = Inr s"
  by (simp add: stamped_def updateVariables_def update_dose_def update_mapped_dose_def
      update_error_from_f_T_def update_error_from_band_def update_v_def)

lemma callback_cache:
  assumes "callback W opts s g = Inr s'"
  shows "dose s' = dose s \<and> stamped c s' = stamped c s"
proof -
  from assms obtain lg s1 s2 where
    s1: "(if verbose opts = ''time'' \<or> verbose opts = ''plot'' then
              bindE (py_get (iter_times lg) (curr_iter lg))
                (\<lambda>t. Inr (s\<lparr>logs := lg, clock_reads := Suc (clock_reads s),
                            stdout := stdout s @ [(curr_iter lg, t)]\<rparr>))
            else Inr (s\<lparr>logs := lg, clock_reads := Suc (clock_reads s)\<rparr>)) = Inr s1"
    and s2: "(case dp s1 of None \<Rightarrow> Inl AttributeError
              | Some k \<Rightarrow> Inr (s1\<lparr>dp := Some (Suc k)\<rparr>)) = Inr s2"
    and s': "s' = s2\<lparr>logs := (logs s2)\<lparr>curr_iter := curr_iter (logs s2) + 1\<rparr>\<rparr>"
    unfolding callback_def bindE_Inr_iff by blast
  from s1 have a: "dose s1 = dose s \<and> stamped c s1 = stamped c s"
    by (cases "verbose opts = ''time'' \<or> verbose opts = ''plot''")
       (auto simp: bindE_Inr_iff stamped_def)
  from s2 have b: "dose s2 = dose s1 \<and> stamped c s2 = stamped c s1"
    by (cases "dp s1") (auto simp: stamped_def)
  from a b s' show ?thesis by (simp add: stamped_def)
qed

lemma computeLoss_stamped:
  assumes "computeLoss W opts s g = Inr (s2, l)"
  shows "stamped (curr_iter (logs s)) s2 \<and> curr_iter (logs s2) = curr_iter (logs s)"
proof -
  from assms obtain s1 ls where u: "updateVariables W opts s g = Inr s1"
    and s2: "s2 = s1\<lparr>logs := (logs s1)\<lparr>loss := ls\<rparr>\<rparr>"
    unfolding computeLoss_def bindE_Inr_iff by auto
  from updateVariables_frame[OF u] have "logs s1 = logs s" by (simp add: same_frame_def)
  with updateVariables_stamped[OF u] s2 show ?thesis by (simp add: stamped_def)
qed

lemma gd_step_stamped:
  assumes step: "gd_step W opts s g = Inr (s3, g2)"
  shows "stamped (curr_iter (logs s3) - 1) s3"
proof -
  from step obtain s1 grad s2 l where
    gr: "computeLossGradient W opts s g = Inr (s1, grad)"
    and cl: "computeLoss W opts s1 g2 = Inr (s2, l)"
    and cb: "callback W opts s2 g2 = Inr s3"
    by (auto simp: gd_step_def bindE_Inr_iff)
  from callback_post[OF cb] computeLoss_stamped[OF cl]
    callback_cache[OF cb, of "curr_iter (logs s1)"]
  show ?thesis by simp
qed

lemma BCLPNorm_init_stamped:
  assumes "BCLPNorm_init W opts = Inr bclp"
  shows "stamped (curr_iter (logs bclp) - 1) bclp"
proof -
  from assms obtain scale g s1 l where
    cl: "computeLoss W opts (new_object W opts scale g (shape (initial_sinogram W opts))) g
           = Inr (s1, l)"
    and cb: "callback W opts s1 g = Inr bclp"
    unfolding BCLPNorm_init_def bindE_Inr_iff by auto
  from callback_post[OF cb] computeLoss_stamped[OF cl]
    callback_cache[OF cb,
      of "curr_iter (logs (new_object W opts scale g (shape (initial_sinogram W opts))))"]
  show ?thesis by simp
qed

lemma gd_calls_stale:
  assumes "stamped (curr_iter (logs s) - 1) s"
  shows "\<forall>(s', g') \<in> set (gd_calls W opts k s g). stamped (curr_iter (logs s') - 1) s'"
  using assms
proof (induction k arbitrary: s g)
  case 0
  then show ?case by simp
next
  case (Suc k)
  show ?case
  proof (cases "gd_step W opts s g")
    case (Inl e)
    with Suc.prems show ?thesis by simp
  next
    case (Inr r)
    obtain s3 g2 where r: "r = (s3, g2)" by (cases r)
    from gd_step_stamped[OF Inr[unfolded r]]
    have "\<forall>(s', g') \<in> set (gd_calls W opts k s3 g2). stamped (curr_iter (logs s') - 1) s'"
      by (rule Suc.IH)
    with Suc.prems Inr r show ?thesis by simp
  qed
qed

text \<open>
  At every call of \<open>computeLossGradient\<close> during a run the five stamps are one behind
  the current iteration index: the cache is stale.
\<close>

lemma gradient_calls_stale:
  "\<forall>(s, g) \<in> set (gradient_calls W opts). stamped (curr_iter (logs s) - 1) s"
proof (cases "BCLPNorm_init W opts")
  case (Inl e)
  then show ?thesis by (simp add: gradient_calls_def)
next
  case (Inr bclp)
  show ?thesis
  proof (cases "checkSinogramShape bclp (g0 bclp) ''flattened''")
    case (Inl e)
    with Inr show ?thesis by (simp add: gradient_calls_def)
  next
    case (Inr gf)
    from gd_calls_stale[OF BCLPNorm_init_stamped[OF \<open>BCLPNorm_init W opts = Inr bclp\<close>]]
    have "\<forall>(s, g) \<in> set (gd_calls W opts (n_iter opts) bclp gf).
            stamped (curr_iter (logs s) - 1) s" .
    with Inr \<open>BCLPNorm_init W opts = Inr bclp\<close> show ?thesis
      by (simp add: gradient_calls_def)
  qed
qed

text \<open>
  On a stale cache \<open>updateVariables\<close> derives the five quantities from the sinogram it
  is given.
\<close>

lemma derived_lengths:
  assumes "length (mapped_dose_of W opts c g) = length (target_array W)"
  shows "length (error_from_target_of W opts c g) = length (target_array W)"
    and "length (error_from_band_of W opts c g) = length (target_array W)"
    and "length (violation_of W opts c g) = length (target_array W)"
  using assms by (simp_all add: error_from_target_of_def error_from_band_of_def violation_of_def)

lemma updateVariables_refreshes:
  assumes st: "stamped c s" and ne: "c \<noteq> curr_iter (logs s)"
    and cyl: "checkSinogramShape s g ''cylindrical'' = Inr gc"
    and len: "length (mapped_dose_of W opts (tomogram_scale s) gc) = length (target_array W)"
  shows "\<exists>s1. updateVariables W opts s g = Inr s1
           \<and> dose s1 = Some (dose_of W (tomogram_scale s) gc)
           \<and> mapped_dose_error_from_f_T s1
               = Some (error_from_target_of W opts (tomogram_scale s) gc)
           \<and> mapped_dose_error_from_band s1
               = Some (error_from_band_of W opts (tomogram_scale s) gc)
           \<and> v s1 = Some (violation_of W opts (tomogram_scale s) gc)
           \<and> stamped (curr_iter (logs s)) s1
           \<and> logs s1 = logs s"
  using st ne cyl len
  by (simp add: stamped_def updateVariables_def update_dose_def update_mapped_dose_def
      update_error_from_f_T_def update_error_from_band_def update_v_def ew2_def derived_defs)

subsection \<open>The sign of the loss\<close>













subsection \<open>The gradient\<close>

lemma gradient_operand_spec:
  assumes "v s = Some vs" and "mapped_dose_error_from_band s = Some b"
    and "mapped_dose_error_from_f_T s = Some e" and "dose s = Some d"
    and "length b = length vs" and "length e = length vs"
    and "length (dmapdf (response_model opts) d) = length vs"
    and "weight_fits (weight opts) (length vs)"
  shows "gradient_operand opts s
           = Inr (spec_operand opts vs b e (dmapdf (response_model opts) d))"
proof (cases "weight opts")
  case (Scalar c)
  with assms show ?thesis
    by (auto simp: gradient_operand_def times_weight_def ew2_def weight_at_def
        spec_operand_def intro!: nth_equalityI)
next
  case (Array ws)
  with assms show ?thesis
    by (auto simp: gradient_operand_def times_weight_def ew2_def weight_at_def
        weight_fits_def spec_operand_def intro!: nth_equalityI)
qed

lemma flattened_is_flat:
  assumes "prod_list (shape a) = length (data a)"
  shows "checkSinogramShape s a ''flattened'' = Inr (flat a)"
  using assms by (simp add: checkSinogramShape_def flat_def reshape_def)

text \<open>
  C7 (as amended). For every sinogram \<open>g\<close> given to \<open>computeLossGradient\<close> on an object
  whose five stamps carry an iteration index other than the current one (by
  \<open>gradient_calls_stale\<close>, every call that the loop of a run makes),
  \<open>computeLossGradient(g)\<close> returns the flattened form of the forward projection of the
  per-voxel operand violation times weight times (error from the band) to the \<open>p - 1\<close>
  times the sign of the error from the target times \<open>dmapdf\<close> of the dose, scaled by
  \<open>q * previousLoss ** ((q - p) / q)\<close>, where every quantity of the operand is derived
  from \<open>g\<close> (\<open>gradient_of\<close> at the cylindrical form \<open>gc\<close> of \<open>g\<close>) and
  \<open>previousLoss\<close> is the value of the log's loss array at index \<open>curr_iter - 1\<close>;
  the dose cached afterwards is that of \<open>g\<close>. The call returns when \<open>g\<close> can be
  brought into cylindrical form, the mapped dose and \<open>dmapdf\<close> of the dose have one
  element per target voxel, the weight fits them, the log has that slot (Python
  indexing), \<open>q\<close> is not 0, and the projector returns a well-formed array.
\<close>

theorem computeLossGradient_of_sinogram:
  assumes st: "stamped c s" and ne: "c \<noteq> curr_iter (logs s)"
    and cyl: "checkSinogramShape s g ''cylindrical'' = Inr gc"
    and len: "length (mapped_dose_of W opts (tomogram_scale s) gc) = length (target_array W)"
    and lens: "length (dmapdf (response_model opts) (dose_of W (tomogram_scale s) gc))
                 = length (target_array W)"
      "weight_fits (weight opts) (length (target_array W))"
    and prev: "py_get (loss (logs s)) (curr_iter (logs s) - 1) = Inr previousLoss"
    and q0: "q opts \<noteq> 0"
    and wf: "prod_list (shape (P_forward W (operand_of W opts (tomogram_scale s) gc)))
             = length (data (P_forward W (operand_of W opts (tomogram_scale s) gc)))"
  shows "\<exists>s1. computeLossGradient W opts s g
                 = Inr (s1, gradient_of W opts (tomogram_scale s) gc previousLoss)
           \<and> dose s1 = Some (dose_of W (tomogram_scale s) gc)
           \<and> stamped (curr_iter (logs s)) s1"
proof -
  let ?c = "tomogram_scale s"
  from updateVariables_refreshes[OF st ne cyl len] obtain s1 where
    upd: "updateVariables W opts s g = Inr s1"
    and d: "dose s1 = Some (dose_of W ?c gc)"
    and ef: "mapped_dose_error_from_f_T s1 = Some (error_from_target_of W opts ?c gc)"
    and eb: "mapped_dose_error_from_band s1 = Some (error_from_band_of W opts ?c gc)"
    and vi: "v s1 = Some (violation_of W opts ?c gc)"
    and st1: "stamped (curr_iter (logs s)) s1"
    and lg: "logs s1 = logs s"
    by blast
  note dl = derived_lengths[OF len]
  have op: "gradient_operand opts s1 = Inr (operand_of W opts ?c gc)"
    unfolding operand_of_def
    using vi eb ef d by (rule gradient_operand_spec) (simp_all add: dl lens)
  have fl: "checkSinogramShape s1
              (scalar_times (fmul (Fin (q opts)) (fpow previousLoss ((q opts - p opts) / q opts)))
                 (P_forward W (operand_of W opts ?c gc))) ''flattened''
            = Inr (gradient_of W opts ?c gc previousLoss)"
    unfolding gradient_of_def
    using wf by (intro flattened_is_flat) (simp add: scalar_times_def)
  from upd op prev q0 lg fl have
    "computeLossGradient W opts s g = Inr (s1, gradient_of W opts ?c gc previousLoss)"
    by (simp add: computeLossGradient_def py_div_def)
  with d st1 show ?thesis by blast
qed

text \<open>The gradient call of the small run's iteration, on the constructed object (stamps
  0, index 1) with the sinogram \<open>(1, 1)\<close>: the gradient is \<open>(-1, -1)\<close>, and the dose
  cached afterwards is \<open>(1/2, 1/2)\<close>.\<close>

theorem computeLossGradient_of_sinogram_witness:
  "checkSinogramShape ex_object ex_flat ''cylindrical'' = Inr ex_cylindrical
   \<and> gradient_of ex_world ex_options (1 / 2) ex_cylindrical (Fin (1 / 2))
       = \<lparr>shape = [2], data = [Fin (- 1), Fin (- 1)]\<rparr>
   \<and> (\<exists>s1. computeLossGradient ex_world ex_options ex_object ex_flat
              = Inr (s1, \<lparr>shape = [2], data = [Fin (- 1), Fin (- 1)]\<rparr>)
         \<and> dose s1 = Some [Fin (1 / 2), Fin (1 / 2)]
         \<and> stamped 1 s1)"
proof -
  have sc: "tomogram_scale ex_object = 1 / 2" and ci: "curr_iter (logs ex_object) = 1"
    by (simp_all add: ex_object_def)
  have st: "stamped 0 ex_object" and ne: "0 \<noteq> curr_iter (logs ex_object)"
    by (simp_all add: stamped_def ex_object_def)
  have cyl: "checkSinogramShape ex_object ex_flat ''cylindrical'' = Inr ex_cylindrical"
    by (simp add: checkSinogramShape_def reshape_def ex_flat_def ex_object_def
        ex_cylindrical_def)
  have d: "dose_of ex_world (1 / 2) ex_cylindrical = [Fin (1 / 2), Fin (1 / 2)]"
    by (simp add: dose_of_def ex_world_def ex_cylindrical_def)
  have md: "mapped_dose_of ex_world ex_options (1 / 2) ex_cylindrical
              = [Fin (1 / 2), Fin (1 / 2)]"
    by (simp add: mapped_dose_of_def d) (simp add: ex_defs)
  have op: "operand_of ex_world ex_options (1 / 2) ex_cylindrical
              = [Fin (- (1 / 2)), Fin (- (1 / 2))]"
    by (simp add: derived_defs ex_defs ex_cylindrical_def spec_operand_def fsub_def
        of_flag_def weight_at_def upt_rec numeral_2_eq_2)
  have val: "gradient_of ex_world ex_options (1 / 2) ex_cylindrical (Fin (1 / 2))
               = \<lparr>shape = [2], data = [Fin (- 1), Fin (- 1)]\<rparr>"
    by (simp add: gradient_of_def op) (simp add: ex_defs flat_def scalar_times_def)
  have len: "length (mapped_dose_of ex_world ex_options (tomogram_scale ex_object)
                       ex_cylindrical) = length (target_array ex_world)"
    by (simp add: sc md) (simp add: ex_world_def)
  have lens: "length (dmapdf (response_model ex_options)
                        (dose_of ex_world (tomogram_scale ex_object) ex_cylindrical))
                = length (target_array ex_world)"
    "weight_fits (weight ex_options) (length (target_array ex_world))"
    by (simp add: sc d, simp_all add: ex_defs weight_fits_def)
  have prev: "py_get (loss (logs ex_object)) (curr_iter (logs ex_object) - 1)
                = Inr (Fin (1 / 2))"
    by (simp add: ex_object_def py_get_def py_index_def)
  have q0: "q ex_options \<noteq> 0" by (simp add: ex_options_def)
  have wf: "prod_list (shape (P_forward ex_world
                (operand_of ex_world ex_options (tomogram_scale ex_object) ex_cylindrical)))
             = length (data (P_forward ex_world
                (operand_of ex_world ex_options (tomogram_scale ex_object) ex_cylindrical)))"
    by (simp add: sc op) (simp add: ex_world_def)
  from computeLossGradient_of_sinogram[OF st ne cyl len lens prev q0 wf]
  have "\<exists>s1. computeLossGradient ex_world ex_options ex_object ex_flat
                 = Inr (s1, \<lparr>shape = [2], data = [Fin (- 1), Fin (- 1)]\<rparr>)
           \<and> dose s1 = Some [Fin (1 / 2), Fin (1 / 2)]
           \<and> stamped 1 s1"
    by (simp add: sc ci val d)
  with cyl val show ?thesis by blast
qed

text \<open>
  C7 as stated, for every sinogram, fails. The gradient call of the small run's iteration
  leaves the object \<open>ex_refreshed\<close>: the five stamps equal the current iteration index
  1, the dose cached is \<open>(1/2, 1/2)\<close>, that of the sinogram \<open>(1, 1)\<close>. On that object
  \<open>computeLossGradient\<close> given the sinogram \<open>(3/2, 3/2)\<close> recomputes nothing and
  returns \<open>(-1, -1)\<close> again, the gradient of \<open>(1, 1)\<close>. The operand derived from
  \<open>(3/2, 3/2)\<close>, with the dose \<open>(3/4, 3/4)\<close> and the same previous loss 1/2, gives
  \<open>(-1/2, -1/2)\<close>.
\<close>

theorem computeLossGradient_on_refreshed_cache:
  "(\<exists>grad. computeLossGradient ex_world ex_options ex_object ex_flat
              = Inr (ex_refreshed, grad))
   \<and> stamped (curr_iter (logs ex_refreshed)) ex_refreshed
   \<and> py_get (loss (logs ex_refreshed)) (curr_iter (logs ex_refreshed) - 1)
       = Inr (Fin (1 / 2))
   \<and> checkSinogramShape ex_refreshed ex_stepped ''cylindrical'' = Inr ex_stepped_cylindrical
   \<and> computeLossGradient ex_world ex_options ex_refreshed ex_stepped
       = Inr (ex_refreshed, \<lparr>shape = [2], data = [Fin (- 1), Fin (- 1)]\<rparr>)
   \<and> gradient_of ex_world ex_options (tomogram_scale ex_refreshed) ex_stepped_cylindrical
         (Fin (1 / 2))
       = \<lparr>shape = [2], data = [Fin (- (1 / 2)), Fin (- (1 / 2))]\<rparr>
   \<and> dose ex_refreshed = Some [Fin (1 / 2), Fin (1 / 2)]
   \<and> dose_of ex_world (tomogram_scale ex_refreshed) ex_stepped_cylindrical
       = [Fin (3 / 4), Fin (3 / 4)]"
proof -
  have a: "\<exists>grad. computeLossGradient ex_world ex_options ex_object ex_flat
              = Inr (ex_refreshed, grad)"
    by (simp add: ex_refreshed_def ex_flat_def ex_object_def ex_defs object_defs numeric_defs
        power_divide)
  have b: "stamped (curr_iter (logs ex_refreshed)) ex_refreshed"
    "py_get (loss (logs ex_refreshed)) (curr_iter (logs ex_refreshed) - 1) = Inr (Fin (1 / 2))"
    "dose ex_refreshed = Some [Fin (1 / 2), Fin (1 / 2)]"
    by (simp_all add: stamped_def ex_refreshed_def ex_object_def py_get_def py_index_def)
  have c: "checkSinogramShape ex_refreshed ex_stepped ''cylindrical''
             = Inr ex_stepped_cylindrical"
    by (simp add: checkSinogramShape_def reshape_def ex_stepped_def ex_refreshed_def
        ex_object_def ex_stepped_cylindrical_def)
  have d: "computeLossGradient ex_world ex_options ex_refreshed ex_stepped
       = Inr (ex_refreshed, \<lparr>shape = [2], data = [Fin (- 1), Fin (- 1)]\<rparr>)"
    by (simp add: ex_refreshed_def ex_stepped_def ex_object_def ex_defs object_defs
        numeric_defs power_divide)
  have e: "gradient_of ex_world ex_options (tomogram_scale ex_refreshed) ex_stepped_cylindrical
         (Fin (1 / 2))
       = \<lparr>shape = [2], data = [Fin (- (1 / 2)), Fin (- (1 / 2))]\<rparr>"
    by (simp add: ex_refreshed_def ex_object_def derived_defs ex_defs
        ex_stepped_cylindrical_def spec_operand_def fsub_def of_flag_def weight_at_def upt_rec
        numeral_2_eq_2 flat_def scalar_times_def)
  have f: "dose_of ex_world (tomogram_scale ex_refreshed) ex_stepped_cylindrical
             = [Fin (3 / 4), Fin (3 / 4)]"
    by (simp add: ex_refreshed_def ex_object_def dose_of_def ex_world_def
        ex_stepped_cylindrical_def)
  from a b c d e f show ?thesis by simp
qed

subsection \<open>The constraints on the sinogram\<close>

lemma fclip_in_bounds: "lo \<le> hi \<Longrightarrow> not_nan x \<Longrightarrow> in_bounds lo hi (fclip lo hi x)"
  by (cases x) auto

lemma np_clip_in_bounds:
  assumes "lo \<le> hi" and "list_all not_nan (data a)"
  shows "list_all (in_bounds lo hi) (data (np_clip a lo hi))"
  using assms by (auto simp: np_clip_def list_all_iff fclip_in_bounds)

lemma foldl_fmax_finite:
  "list_all is_finite xs \<Longrightarrow> \<exists>m. foldl fmax (Fin a) xs = Fin m"
proof (induction xs arbitrary: a)
  case Nil
  then show ?case by simp
next
  case (Cons x xs)
  from Cons.prems obtain c where "x = Fin c" by (cases x) auto
  with Cons show ?case by simp
qed

lemma amax_finite:
  assumes "xs \<noteq> []" and "list_all is_finite xs"
  shows "\<exists>m. amax xs = Inr (Fin m)"
proof -
  from assms obtain x rest where xs: "xs = x # rest" by (cases xs) auto
  with assms obtain c where "x = Fin c" by (cases x) auto
  with xs assms foldl_fmax_finite[of rest c] show ?thesis by (auto simp: amax_def)
qed

lemma nearest_level_less: "0 < L \<Longrightarrow> nearest_level L lo hi x < L"
  by (auto simp: nearest_level_def)

lemma quantize_finite:
  assumes "is_finite x" and "0 < L"
  shows "\<exists>k<L. quantize L lo hi x = Fin (level L lo hi k)"
proof -
  from assms(1) obtain r where "x = Fin r" by (cases x) auto
  with nearest_level_less[OF assms(2)] show ?thesis by auto
qed

lemma quantized_values:
  assumes "list_all is_finite xs" and "0 < L"
  shows "set (map (quantize L lo hi) xs) \<subseteq> (\<lambda>k. Fin (level L lo hi k)) ` {..<L}"
proof
  fix y assume "y \<in> set (map (quantize L lo hi) xs)"
  then obtain x where x: "x \<in> set xs" and y: "y = quantize L lo hi x" by auto
  from assms(1) x have "is_finite x" by (simp add: list_all_iff)
  from quantize_finite[OF this assms(2)] y show "y \<in> (\<lambda>k. Fin (level L lo hi k)) ` {..<L}"
    by auto
qed

lemma quantized_card:
  assumes "list_all is_finite xs" and "0 < L"
  shows "card (set (map (quantize L lo hi) xs)) \<le> L"
proof -
  have "card (set (map (quantize L lo hi) xs)) \<le> card ((\<lambda>k. Fin (level L lo hi k)) ` {..<L})"
    by (intro card_mono quantized_values[OF assms]) simp
  also have "\<dots> \<le> card {..<L}" by (intro card_image_le) simp
  finally show ?thesis by simp
qed

lemma quantized_not_nan:
  assumes "list_all is_finite xs"
  shows "list_all not_nan (map (quantize L lo hi) xs)"
  unfolding list_all_iff
proof
  fix y assume "y \<in> set (map (quantize L lo hi) xs)"
  then obtain x where x: "x \<in> set xs" and y: "y = quantize L lo hi x" by auto
  from assms x have "is_finite x" by (simp add: list_all_iff)
  then obtain r where "x = Fin r" by (cases x) auto
  with y show "not_nan y" by simp
qed

text \<open>
  C6 (as amended). Let \<open>blb \<le> bub\<close>. Without a bit depth, for every sinogram with no
  \<open>nan\<close> element, \<open>imposeSinogramConstraints\<close> returns the clamped sinogram: the same
  shape, as many elements, each in \<open>[blb, bub]\<close>. With a bit depth \<open>L \<ge> 1\<close>, for every
  non-empty sinogram of finite elements and the quantiser modelled from the
  specification, the sinogram is first quantized over the range from 0 to its maximum
  and then clamped: the quantized array takes at most \<open>L\<close> distinct values, and the
  result has the same shape with every element in \<open>[blb, bub]\<close>.
\<close>

theorem imposeSinogramConstraints_bounds:
  assumes bounds: "blb opts \<le> bub opts"
    and input: "case bit_depth opts of
                  None \<Rightarrow> list_all not_nan (data g)
                | Some L \<Rightarrow> discretize W = discretize_spec \<and> 0 < L \<and> data g \<noteq> []
                            \<and> list_all is_finite (data g)"
  shows "\<exists>pre g'. imposeSinogramConstraints W opts g = Inr g'
           \<and> g' = np_clip pre (blb opts) (bub opts)
           \<and> shape g' = shape g
           \<and> length (data g') = length (data g)
           \<and> list_all (in_bounds (blb opts) (bub opts)) (data g')
           \<and> (case bit_depth opts of
                 None \<Rightarrow> pre = g
               | Some L \<Rightarrow>
                   (\<exists>m. amax (data g) = Inr (Fin m)
                        \<and> pre = discretize_spec g L (Fin 0, Fin m))
                   \<and> card (set (data pre)) \<le> L)"
proof (cases "bit_depth opts")
  case None
  with input have nn: "list_all not_nan (data g)" by simp
  from None have "imposeSinogramConstraints W opts g = Inr (np_clip g (blb opts) (bub opts))"
    by (simp add: imposeSinogramConstraints_def)
  moreover have "shape (np_clip g (blb opts) (bub opts)) = shape g"
    "length (data (np_clip g (blb opts) (bub opts))) = length (data g)"
    by (simp_all add: np_clip_def)
  ultimately show ?thesis
    using None np_clip_in_bounds[OF bounds nn] by auto
next
  case (Some L)
  with input have d: "discretize W = discretize_spec" and L: "0 < L"
    and ne: "data g \<noteq> []" and fin: "list_all is_finite (data g)"
    by simp_all
  from amax_finite[OF ne fin] obtain m where m: "amax (data g) = Inr (Fin m)" by blast
  define pre where "pre = discretize_spec g L (Fin 0, Fin m)"
  have pd: "data pre = map (quantize L 0 m) (data g)" and ps: "shape pre = shape g"
    by (simp_all add: pre_def discretize_spec_def)
  from Some d m have "imposeSinogramConstraints W opts g = Inr (np_clip pre (blb opts) (bub opts))"
    by (simp add: imposeSinogramConstraints_def pre_def)
  moreover have "shape (np_clip pre (blb opts) (bub opts)) = shape g"
    "length (data (np_clip pre (blb opts) (bub opts))) = length (data g)"
    using pd ps by (simp_all add: np_clip_def)
  moreover have "list_all (in_bounds (blb opts) (bub opts))
                   (data (np_clip pre (blb opts) (bub opts)))"
    using quantized_not_nan[OF fin] pd by (intro np_clip_in_bounds[OF bounds]) simp
  moreover have "card (set (data pre)) \<le> L"
    using quantized_card[OF fin L] pd by simp
  ultimately show ?thesis
    using Some m pre_def by auto
qed

text \<open>Bit depth 2 on the values 0, 4, 10 with bounds 0 and 2: the quantized array is
  \<open>(0, 0, 10)\<close>, the result \<open>(0, 0, 2)\<close>.\<close>

theorem imposeSinogramConstraints_bounds_witness:
  "\<exists>pre g'. imposeSinogramConstraints ex_quant_world ex_quant_options ex_sinogram = Inr g'
      \<and> pre = discretize_spec ex_sinogram 2 (Fin 0, Fin 10)
      \<and> g' = np_clip pre 0 2
      \<and> shape g' = [3]
      \<and> list_all (in_bounds 0 2) (data g')
      \<and> card (set (data pre)) \<le> 2
      \<and> data pre = [Fin 0, Fin 0, Fin 10]
      \<and> data g' = [Fin 0, Fin 0, Fin 2]"
proof -
  have bounds: "blb ex_quant_options \<le> bub ex_quant_options"
    by (simp add: ex_quant_options_def ex_options_def)
  have input: "case bit_depth ex_quant_options of
                  None \<Rightarrow> list_all not_nan (data ex_sinogram)
                | Some L \<Rightarrow> discretize ex_quant_world = discretize_spec \<and> 0 < L
                            \<and> data ex_sinogram \<noteq> [] \<and> list_all is_finite (data ex_sinogram)"
    by (simp add: ex_quant_options_def ex_quant_world_def ex_sinogram_def ex_options_def
        ex_world_def)
  have m: "amax (data ex_sinogram) = Inr (Fin 10)"
    by (simp add: ex_sinogram_def amax_def)
  have v: "data (discretize_spec ex_sinogram 2 (Fin 0, Fin 10)) = [Fin 0, Fin 0, Fin 10]"
    "data (np_clip (discretize_spec ex_sinogram 2 (Fin 0, Fin 10)) 0 2)
       = [Fin 0, Fin 0, Fin 2]"
    by (simp_all add: discretize_spec_def np_clip_def ex_sinogram_def level_def
        nearest_level_def round_def)
  from imposeSinogramConstraints_bounds[OF bounds input] m v show ?thesis
    by (auto simp: ex_quant_options_def ex_options_def ex_sinogram_def)
qed

text \<open>
  C6 as stated fails. With bounds 0 and 2 and no bit depth, a sinogram whose one element
  is \<open>nan\<close> comes back unchanged, and \<open>nan\<close> is not in \<open>[0, 2]\<close>. With a bit depth,
  the empty sinogram raises \<^verbatim>\<open>ValueError\<close> in \<^verbatim>\<open>np.amax\<close> and nothing is returned.
\<close>

theorem imposeSinogramConstraints_nan_and_empty:
  "blb ex_options \<le> bub ex_options
   \<and> imposeSinogramConstraints ex_world ex_options \<lparr>shape = [1], data = [NaN]\<rparr>
       = Inr \<lparr>shape = [1], data = [NaN]\<rparr>
   \<and> \<not> in_bounds (blb ex_options) (bub ex_options) NaN
   \<and> imposeSinogramConstraints ex_quant_world ex_quant_options \<lparr>shape = [0], data = []\<rparr>
       = Inl ValueError"
  by (simp add: imposeSinogramConstraints_def np_clip_def amax_def ex_quant_options_def
      ex_options_def)

subsection \<open>The cache across one iteration\<close>

text \<open>
  X1. When the five iteration stamps equal the log's current iteration index,
  \<open>updateVariables\<close> returns the object unchanged, whatever sinogram it is given: the
  staleness test looks at the iteration index alone.
\<close>

theorem fresh_cache_ignores_sinogram:
  assumes "dose_iter s = curr_iter (logs s)"
    and "mapped_dose_iter s = curr_iter (logs s)"
    and "mapped_dose_error_from_f_T_iter s = curr_iter (logs s)"
    and "mapped_dose_error_from_band_iter s = curr_iter (logs s)"
    and "v_iter s = curr_iter (logs s)"
  shows "updateVariables W opts s g = Inr s"
  using assms by (intro updateVariables_stamped_noop) (simp add: stamped_def)

text \<open>
  X2. In every loop iteration that completes and starts with a stale dose stamp (as every
  iteration of a run does, the stamps being one behind the index), the dose cached when
  the iteration ends is the scaled back-projection of the sinogram the iteration started
  from, not of the sinogram it produced; the five stamps then equal the index of the
  iteration, and the index has advanced by one.
\<close>

theorem gd_step_caches_old_sinogram:
  assumes stale: "dose_iter s \<noteq> curr_iter (logs s)"
    and step: "gd_step W opts s g = Inr (s3, g2)"
  shows "\<exists>gc. checkSinogramShape s g ''cylindrical'' = Inr gc
          \<and> dose s3 = Some (map (\<lambda>x. fmul x (Fin (tomogram_scale s))) (P_backward W gc))
          \<and> stamped (curr_iter (logs s)) s3
          \<and> curr_iter (logs s3) = curr_iter (logs s) + 1"
proof -
  from step obtain s1 grad s2 l where
    gr: "computeLossGradient W opts s g = Inr (s1, grad)"
    and cl: "computeLoss W opts s1 g2 = Inr (s2, l)"
    and cb: "callback W opts s2 g2 = Inr s3"
    by (auto simp: gd_step_def bindE_Inr_iff)
  from gr have u: "updateVariables W opts s g = Inr s1"
    unfolding computeLossGradient_def bindE_Inr_iff by auto
  from updateVariables_frame[OF u] have lg: "logs s1 = logs s"
    by (simp add: same_frame_def)
  from updateVariables_stamped[OF u] lg have st1: "stamped (curr_iter (logs s1)) s1" by simp
  from cl obtain ls where s2: "s2 = s1\<lparr>logs := (logs s1)\<lparr>loss := ls\<rparr>\<rparr>"
    unfolding computeLoss_def bindE_Inr_iff updateVariables_stamped_noop[OF st1] by auto
  from s2 st1 lg have a: "dose s2 = dose s1" "stamped (curr_iter (logs s)) s2"
    "curr_iter (logs s2) = curr_iter (logs s)"
    by (simp_all add: stamped_def)
  from callback_post[OF cb] a(3) have ci: "curr_iter (logs s3) = curr_iter (logs s) + 1"
    by simp
  from callback_cache[OF cb, of "curr_iter (logs s)"] a
  have "dose s3 = dose s1" "stamped (curr_iter (logs s)) s3" by simp_all
  with updateVariables_stale_dose[OF stale u] ci show ?thesis by auto
qed

text \<open>The object of the small run after its gradient call, given the stepped sinogram.\<close>

theorem fresh_cache_ignores_sinogram_witness:
  "updateVariables ex_world ex_options
     (ex_object\<lparr>dose_iter := 1, mapped_dose_iter := 1, mapped_dose_error_from_f_T_iter := 1,
                 mapped_dose_error_from_band_iter := 1, v_iter := 1\<rparr>) ex_stepped
   = Inr (ex_object\<lparr>dose_iter := 1, mapped_dose_iter := 1, mapped_dose_error_from_f_T_iter := 1,
                 mapped_dose_error_from_band_iter := 1, v_iter := 1\<rparr>)"
  by (rule fresh_cache_ignores_sinogram) (simp_all add: ex_object_def)

text \<open>The iteration of the small run: it produces \<open>(3/2, 3/2)\<close> and ends with the dose
  \<open>(1/2, 1/2)\<close> of the sinogram \<open>(1, 1)\<close> it started from.\<close>

theorem gd_step_caches_old_sinogram_witness:
  "\<exists>s3. gd_step ex_world ex_options ex_object ex_flat = Inr (s3, ex_stepped)
      \<and> checkSinogramShape ex_object ex_flat ''cylindrical''
          = Inr \<lparr>shape = [1, 2], data = [Fin 1, Fin 1]\<rparr>
      \<and> dose s3 = Some [Fin (1 / 2), Fin (1 / 2)]
      \<and> spec_dose ex_world ex_flat = [Fin (1 / 2), Fin (1 / 2)]
      \<and> spec_dose ex_world ex_stepped = [Fin (3 / 4), Fin (3 / 4)]
      \<and> curr_iter (logs s3) = 2"
proof -
  have stale: "dose_iter ex_object \<noteq> curr_iter (logs ex_object)"
    by (simp add: ex_object_def)
  have "\<exists>s3. gd_step ex_world ex_options ex_object ex_flat = Inr (s3, ex_stepped)"
    by (simp add: ex_flat_def ex_stepped_def ex_object_def ex_defs object_defs numeric_defs
        power_divide)
  then obtain s3 where step: "gd_step ex_world ex_options ex_object ex_flat = Inr (s3, ex_stepped)"
    by blast
  have c: "checkSinogramShape ex_object ex_flat ''cylindrical''
          = Inr \<lparr>shape = [1, 2], data = [Fin 1, Fin 1]\<rparr>"
    by (simp add: checkSinogramShape_def reshape_def ex_flat_def ex_object_def)
  have d: "spec_dose ex_world ex_flat = [Fin (1 / 2), Fin (1 / 2)]"
    "spec_dose ex_world ex_stepped = [Fin (3 / 4), Fin (3 / 4)]"
    by (simp_all add: spec_dose_def ex_world_def ex_flat_def ex_stepped_def)
  from gd_step_caches_old_sinogram[OF stale step] c
  have "dose s3 = Some [Fin (1 / 2), Fin (1 / 2)]" "curr_iter (logs s3) = 2"
    by (auto simp: ex_object_def ex_world_def)
  with step c d show ?thesis by blast
qed

subsection \<open>The shape of a run that returns\<close>

lemma py_set_length: "py_set xs i x = Inr ys \<Longrightarrow> length ys = length xs"
  by (auto simp: py_set_def bindE_Inr_iff)

lemma computeLoss_log:
  assumes "computeLoss W opts s g = Inr (s2, l)"
  shows "length (loss (logs s2)) = length (loss (logs s))
         \<and> curr_iter (logs s2) = curr_iter (logs s)"
proof -
  from assms obtain s1 ls where u: "updateVariables W opts s g = Inr s1"
    and ps: "py_set (loss (logs s1)) (curr_iter (logs s1)) l = Inr ls"
    and s2: "s2 = s1\<lparr>logs := (logs s1)\<lparr>loss := ls\<rparr>\<rparr>"
    unfolding computeLoss_def bindE_Inr_iff by auto
  from updateVariables_frame[OF u] have "logs s1 = logs s" by (simp add: same_frame_def)
  with py_set_length[OF ps] s2 show ?thesis by simp
qed

lemma gd_step_log:
  assumes "gd_step W opts s g = Inr (s3, g2)"
  shows "curr_iter (logs s3) = curr_iter (logs s) + 1
         \<and> length (loss (logs s3)) = length (loss (logs s))"
proof -
  from assms obtain s1 grad s2 l where
    gr: "computeLossGradient W opts s g = Inr (s1, grad)"
    and cl: "computeLoss W opts s1 g2 = Inr (s2, l)"
    and cb: "callback W opts s2 g2 = Inr s3"
    by (auto simp: gd_step_def bindE_Inr_iff)
  from gr have u: "updateVariables W opts s g = Inr s1"
    unfolding computeLossGradient_def bindE_Inr_iff by auto
  from updateVariables_frame[OF u] have "logs s1 = logs s" by (simp add: same_frame_def)
  with computeLoss_log[OF cl] callback_post[OF cb] show ?thesis by simp
qed

lemma gd_loop_log:
  assumes "gd_loop W opts k s g = Inr (s', g')"
  shows "curr_iter (logs s') = curr_iter (logs s) + int k
         \<and> length (loss (logs s')) = length (loss (logs s))
         \<and> length (gd_calls W opts k s g) = k"
  using assms
proof (induction k arbitrary: s g)
  case 0
  then show ?case by simp
next
  case (Suc k)
  from Suc.prems obtain s1 g1 where
    st: "gd_step W opts s g = Inr (s1, g1)" and rest: "gd_loop W opts k s1 g1 = Inr (s', g')"
    by (auto simp: bindE_Inr_iff)
  from Suc.IH[OF rest] gd_step_log[OF st] st show ?case by simp
qed

lemma BCLPNorm_init_needs_plot:
  assumes "BCLPNorm_init W opts = Inr bclp"
  shows "verbose opts = ''plot''"
proof (rule ccontr)
  assume np: "verbose opts \<noteq> ''plot''"
  from assms obtain scale g s1 l where
    cl: "computeLoss W opts (new_object W opts scale g (shape (initial_sinogram W opts))) g
           = Inr (s1, l)"
    and cb: "callback W opts s1 g = Inr bclp"
    unfolding BCLPNorm_init_def bindE_Inr_iff by auto
  from computeLoss_dp[OF cl] np have "dp s1 = None" by (simp add: new_object_def)
  from callback_without_dp[OF this, of W opts g] cb show False by simp
qed

text \<open>
  X3. Whenever \<open>minimizeBCLP\<close> returns, \<open>verbose\<close> is \<^verbatim>\<open>'plot'\<close>, the loss array of
  the returned log has \<open>n_iter + 1\<close> slots, the iteration index has reached
  \<open>n_iter + 1\<close>, and the loop has made exactly \<open>n_iter\<close> calls of
  \<open>computeLossGradient\<close>, one per gradient step.
\<close>

theorem minimizeBCLP_run_structure:
  assumes "minimizeBCLP W opts = Inr (g_opt, d, lg)"
  shows "verbose opts = ''plot''
         \<and> length (loss lg) = n_iter opts + 1
         \<and> curr_iter lg = int (n_iter opts) + 1
         \<and> length (gradient_calls W opts) = n_iter opts"
proof -
  from assms obtain bclp s1 g1 where
    init: "BCLPNorm_init W opts = Inr bclp"
    and gd: "gradientDescent W opts bclp = Inr (s1, g1)"
    and lg: "lg = logs s1"
    by (auto simp: minimizeBCLP_def bindE_Inr_iff)
  from gd obtain gf where
    fl: "checkSinogramShape bclp (g0 bclp) ''flattened'' = Inr gf"
    and loop: "gd_loop W opts (n_iter opts) bclp gf = Inr (s1, g1)"
    unfolding gradientDescent_def bindE_Inr_iff by blast
  from init obtain scale g s0 l where
    cl: "computeLoss W opts (new_object W opts scale g (shape (initial_sinogram W opts))) g
           = Inr (s0, l)"
    and cb: "callback W opts s0 g = Inr bclp"
    unfolding BCLPNorm_init_def bindE_Inr_iff by auto
  have "curr_iter (logs (new_object W opts scale g (shape (initial_sinogram W opts)))) = 0"
    "length (loss (logs (new_object W opts scale g (shape (initial_sinogram W opts)))))
       = n_iter opts + 1"
    by (simp_all add: new_object_def startTiming_def LogPerf_init_def zeros_times_nan_def
        np_zeros_def)
  with computeLoss_log[OF cl] callback_post[OF cb]
  have b: "curr_iter (logs bclp) = 1" "length (loss (logs bclp)) = n_iter opts + 1"
    by simp_all
  from init fl have "gradient_calls W opts = gd_calls W opts (n_iter opts) bclp gf"
    by (simp add: gradient_calls_def)
  with gd_loop_log[OF loop] b lg BCLPNorm_init_needs_plot[OF init] show ?thesis by simp
qed

text \<open>The small run returns, after one gradient step.\<close>

theorem minimizeBCLP_run_structure_witness:
  "\<exists>g_opt d lg. minimizeBCLP ex_world ex_options = Inr (g_opt, d, lg)
      \<and> verbose ex_options = ''plot''
      \<and> length (loss lg) = 2
      \<and> curr_iter lg = 2
      \<and> length (gradient_calls ex_world ex_options) = 1"
proof -
  have "\<exists>g_opt d lg. minimizeBCLP ex_world ex_options = Inr (g_opt, d, lg)"
    by (simp add: ex_defs object_defs numeric_defs power_divide)
  then obtain g_opt d lg where r: "minimizeBCLP ex_world ex_options = Inr (g_opt, d, lg)"
    by blast
  from minimizeBCLP_run_structure[OF r] r show ?thesis
    by (auto simp: ex_options_def)
qed

end
